theory Spec2Isabelle
  imports Main "HOL-Library.Word"
begin

section \<open>hello-triangle.c: data model\<close>

text \<open>
  The program is one C file, \<^verbatim>\<open>src/hello-triangle.c\<close>. Its unsigned 32-bit
  quantities (\<^verbatim>\<open>uint32_t\<close>) are \<open>32 word\<close>, so that \<open>+\<close> wraps as in C. Arrays
  handed over by the Vulkan API together with their element count are lists, the count
  being the length of the list. Every call of \<^verbatim>\<open>FatalError\<close> ends the process
  (\<^verbatim>\<open>exit(EXIT_FAILURE)\<close>); in the model it is the value \<open>Inl e\<close> of a sum type,
  \<open>e\<close> naming the message.
\<close>

type_synonym uint32_t = "32 word"

text \<open>\<^verbatim>\<open>UINT32_MAX\<close> of \<^verbatim>\<open>stdint.h\<close>.\<close>

definition UINT32_MAX :: uint32_t where
  "UINT32_MAX = 4294967295"

text \<open>The macros \<^verbatim>\<open>MAX\<close> and \<^verbatim>\<open>MIN\<close> of lines 33 and 34.\<close>

definition MAX_macro :: "uint32_t \<Rightarrow> uint32_t \<Rightarrow> uint32_t" where
  "MAX_macro x y = (if x > y then x else y)"

definition MIN_macro :: "uint32_t \<Rightarrow> uint32_t \<Rightarrow> uint32_t" where
  "MIN_macro x y = (if x < y then x else y)"

text \<open>\<^verbatim>\<open>const int WIDTH = 800; const int HEIGHT = 600;\<close> (lines 38 and 39), as they
  are converted to \<^verbatim>\<open>uint32_t\<close> by the initialiser of \<^verbatim>\<open>actualExtent\<close>.\<close>

definition WIDTH :: uint32_t where
  "WIDTH = 800"

definition HEIGHT :: uint32_t where
  "HEIGHT = 600"

text \<open>
  Modelled from the spec: the enumerations of the Vulkan header, which is not under
  \<^verbatim>\<open>src/\<close>. Each one is a datatype with the enumerators the program names (the
  8-bit BGRA format, the standard non-linear colour space, the mailbox and FIFO present
  modes, the discrete GPU type, the two sharing modes) and one further constructor that
  stands for every other value of the C enumeration.
\<close>

datatype VkFormat =
  VK_FORMAT_B8G8R8A8_UNORM
| VK_FORMAT_other nat

datatype VkColorSpaceKHR =
  VK_COLOR_SPACE_SRGB_NONLINEAR_KHR
| VK_COLOR_SPACE_other nat

datatype VkPresentModeKHR =
  VK_PRESENT_MODE_MAILBOX_KHR
| VK_PRESENT_MODE_FIFO_KHR
| VK_PRESENT_MODE_other nat

datatype VkPhysicalDeviceType =
  VK_PHYSICAL_DEVICE_TYPE_DISCRETE_GPU
| VK_PHYSICAL_DEVICE_TYPE_other nat

datatype VkSharingMode =
  VK_SHARING_MODE_EXCLUSIVE
| VK_SHARING_MODE_CONCURRENT

record VkExtent2D =
  width :: uint32_t
  height :: uint32_t

record VkSurfaceFormatKHR =
  format :: VkFormat
  colorSpace :: VkColorSpaceKHR

text \<open>The fields of \<^verbatim>\<open>VkSurfaceCapabilitiesKHR\<close> that the program reads.\<close>

record VkSurfaceCapabilitiesKHR =
  minImageCount :: uint32_t
  maxImageCount :: uint32_t
  currentExtent :: VkExtent2D
  minImageExtent :: VkExtent2D
  maxImageExtent :: VkExtent2D
  currentTransform :: uint32_t

text \<open>
  \<^verbatim>\<open>swapchain_support_details_t\<close> (lines 23 to 31). \<open>formats\<close> with
  \<^verbatim>\<open>formatCount\<close> and \<open>presentModes\<close> with \<^verbatim>\<open>presentModeCount\<close> are one list
  each; \<^verbatim>\<open>QuerySwapchainSupport\<close> sets the pointer to \<^verbatim>\<open>NULL\<close> exactly when the
  count is zero, which is the empty list.
\<close>

record swapchain_support_details_t =
  capabilities :: VkSurfaceCapabilitiesKHR
  formats :: "VkSurfaceFormatKHR list"
  presentModes :: "VkPresentModeKHR list"

text \<open>The ways the process can end before \<^verbatim>\<open>main\<close> returns: the messages of
  \<^verbatim>\<open>FatalError\<close>, the read through a null pointer of line 338, and a read of an
  array element that was never allocated (undefined behaviour in C, an error value
  here).\<close>

datatype failure =
  Failed_to_find_Vulkan_capable_GPU
| Returned_zero_available_extensions_for_device
| Could_not_find_required_extension string
| Failed_to_find_graphics_queue_family
| Failed_to_find_present_queue_family
| Failed_to_create_logical_device
| No_valid_swapchain_configuration_found
| Failed_to_create_swapchain
| Failed_to_create_image_views
| Failed_to_create_render_pass
| Failed_to_create_shader_module
| Failed_to_create_pipeline_layout
| Failed_to_create_graphics_pipeline
| Failed_to_create_framebuffer
| Failed_to_create_command_pool
| Failed_to_allocate_command_buffers
| Failed_to_begin_recording_command_buffer
| Failed_to_record_command_buffer
| Failed_to_create_image_available_semaphore
| Failed_to_create_render_finished_semaphore
| Null_pointer_read
| Read_outside_array

section \<open>Swapchain negotiation (lines 331 to 376)\<close>

text \<open>
  \<^verbatim>\<open>ChooseSwapSurfaceFormat\<close>: the loop returns the first entry that is the preferred
  pair; after the loop the function reads \<^verbatim>\<open>details.formats[0]\<close>, which is a read
  through \<^verbatim>\<open>NULL\<close> when the list is empty.
\<close>

fun ChooseSwapSurfaceFormat_loop :: "VkSurfaceFormatKHR list \<Rightarrow> VkSurfaceFormatKHR option" where
  "ChooseSwapSurfaceFormat_loop [] = None"
| "ChooseSwapSurfaceFormat_loop (f # fs) =
     (if format f = VK_FORMAT_B8G8R8A8_UNORM \<and> colorSpace f = VK_COLOR_SPACE_SRGB_NONLINEAR_KHR
      then Some f
      else ChooseSwapSurfaceFormat_loop fs)"

definition ChooseSwapSurfaceFormat :: "swapchain_support_details_t \<Rightarrow> failure + VkSurfaceFormatKHR" where
  "ChooseSwapSurfaceFormat details =
     (case ChooseSwapSurfaceFormat_loop (formats details) of
        Some f \<Rightarrow> Inr f
      | None \<Rightarrow>
          (case formats details of
             [] \<Rightarrow> Inl Null_pointer_read
           | f0 # _ \<Rightarrow> Inr f0))"

text \<open>\<^verbatim>\<open>ChoosePresentMode\<close>: the first mailbox entry, else the constant FIFO.\<close>

fun ChoosePresentMode_loop :: "VkPresentModeKHR list \<Rightarrow> VkPresentModeKHR option" where
  "ChoosePresentMode_loop [] = None"
| "ChoosePresentMode_loop (m # ms) =
     (if m = VK_PRESENT_MODE_MAILBOX_KHR then Some m else ChoosePresentMode_loop ms)"

definition ChoosePresentMode :: "swapchain_support_details_t \<Rightarrow> VkPresentModeKHR" where
  "ChoosePresentMode details =
     (case ChoosePresentMode_loop (presentModes details) of
        Some m \<Rightarrow> m
      | None \<Rightarrow> VK_PRESENT_MODE_FIFO_KHR)"

text \<open>\<^verbatim>\<open>ChooseSwapExtent\<close> (lines 352 to 366).\<close>

definition ChooseSwapExtent :: "swapchain_support_details_t \<Rightarrow> VkExtent2D" where
  "ChooseSwapExtent details =
     (if width (currentExtent (capabilities details)) \<noteq> UINT32_MAX
      then currentExtent (capabilities details)
      else
        \<lparr> width = MAX_macro (width (minImageExtent (capabilities details)))
                      (MIN_macro (width (maxImageExtent (capabilities details))) WIDTH),
          height = MAX_macro (height (minImageExtent (capabilities details)))
                       (MIN_macro (height (maxImageExtent (capabilities details))) HEIGHT) \<rparr>)"

text \<open>The local \<^verbatim>\<open>imageCount\<close> of \<^verbatim>\<open>CreateSwapChain\<close> (lines 373 to 376); the
  addition is the wrapping one of \<^verbatim>\<open>uint32_t\<close>.\<close>

definition imageCount :: "swapchain_support_details_t \<Rightarrow> uint32_t" where
  "imageCount details =
     (let n = minImageCount (capabilities details) + 1
      in if maxImageCount (capabilities details) > 0 \<and> n > maxImageCount (capabilities details)
         then maxImageCount (capabilities details)
         else n)"

section \<open>Device selection (lines 158 to 218)\<close>

text \<open>
  Vulkan handles are pointers or 64-bit integers; the model takes natural numbers, with
  \<^verbatim>\<open>VK_NULL_HANDLE\<close> being 0.
\<close>

type_synonym handle = nat

definition VK_NULL_HANDLE :: handle where
  "VK_NULL_HANDLE = 0"

text \<open>
  One queue family as the API reports it. \<open>supportsGraphics\<close> is the bit
  \<^verbatim>\<open>VK_QUEUE_GRAPHICS_BIT\<close> of \<^verbatim>\<open>queueFlags\<close>, which
  \<^verbatim>\<open>vkGetPhysicalDeviceQueueFamilyProperties\<close> would deliver with a non-null last
  argument; \<open>surfaceSupported\<close> is what \<^verbatim>\<open>vkGetPhysicalDeviceSurfaceSupportKHR\<close>
  writes for this family and the bound surface.
\<close>

record queue_family =
  supportsGraphics :: bool
  surfaceSupported :: bool

text \<open>
  What the instance answers to the enumeration calls: the physical devices in
  enumeration order, and for each device handle its type, its extension names and its
  queue families.
\<close>

record vulkan_instance =
  enumerated :: "handle list"
  deviceType :: "handle \<Rightarrow> VkPhysicalDeviceType"
  extensionNames :: "handle \<Rightarrow> string list"
  queueFamilies :: "handle \<Rightarrow> queue_family list"

text \<open>\<^verbatim>\<open>requiredExtensions\<close> (lines 63 to 65); the macro
  \<^verbatim>\<open>VK_KHR_SWAPCHAIN_EXTENSION_NAME\<close> of the Vulkan header is this string.\<close>

definition requiredExtensions :: "string list" where
  "requiredExtensions = [''VK_KHR_swapchain'']"

definition IsDiscreteGPU :: "vulkan_instance \<Rightarrow> handle \<Rightarrow> bool" where
  "IsDiscreteGPU inst device = (deviceType inst device = VK_PHYSICAL_DEVICE_TYPE_DISCRETE_GPU)"

text \<open>The loop of lines 180 to 185 over the rest of the array; the second argument is
  the global \<^verbatim>\<open>physicalDevice\<close>, which the loop leaves alone unless it breaks.\<close>

fun PickPhysicalVulkanDevice_loop :: "vulkan_instance \<Rightarrow> handle \<Rightarrow> handle list \<Rightarrow> handle" where
  "PickPhysicalVulkanDevice_loop inst pd [] = pd"
| "PickPhysicalVulkanDevice_loop inst pd (d # ds) =
     (if IsDiscreteGPU inst d then d else PickPhysicalVulkanDevice_loop inst pd ds)"

text \<open>Lines 179 to 190: the loop, then the fallback to \<^verbatim>\<open>devices[0]\<close>. The caller
  has left the function before when the array is empty.\<close>

definition select_physicalDevice :: "vulkan_instance \<Rightarrow> handle \<Rightarrow> handle list \<Rightarrow> handle" where
  "select_physicalDevice inst pd devices =
     (let pd' = PickPhysicalVulkanDevice_loop inst pd devices
      in if pd' = VK_NULL_HANDLE then devices ! 0 else pd')"

text \<open>The inner loop of lines 206 to 211 (\<^verbatim>\<open>strcmp\<close> is equality of strings) and
  the outer loop of lines 204 to 215.\<close>

fun extension_found :: "string \<Rightarrow> string list \<Rightarrow> bool" where
  "extension_found r [] = False"
| "extension_found r (p # ps) = (if r = p then True else extension_found r ps)"

fun check_requiredExtensions :: "string list \<Rightarrow> string list \<Rightarrow> failure option" where
  "check_requiredExtensions [] properties = None"
| "check_requiredExtensions (r # rs) properties =
     (if \<not> extension_found r properties then Some (Could_not_find_required_extension r)
      else check_requiredExtensions rs properties)"

text \<open>\<^verbatim>\<open>PickPhysicalVulkanDevice\<close>; the second argument is the value of the global
  \<^verbatim>\<open>physicalDevice\<close> at the call, the result its value at the return.\<close>

definition PickPhysicalVulkanDevice :: "vulkan_instance \<Rightarrow> handle \<Rightarrow> failure + handle" where
  "PickPhysicalVulkanDevice inst pd =
     (if length (enumerated inst) = 0 then Inl Failed_to_find_Vulkan_capable_GPU
      else
        let pd' = select_physicalDevice inst pd (enumerated inst)
        in if length (extensionNames inst pd') = 0
           then Inl Returned_zero_available_extensions_for_device
           else
             (case check_requiredExtensions requiredExtensions (extensionNames inst pd') of
                Some e \<Rightarrow> Inl e
              | None \<Rightarrow> Inr pd'))"

section \<open>Queue families and the logical device (lines 220 to 294)\<close>

text \<open>
  \<^verbatim>\<open>queue_family_indices_t\<close> (lines 15 to 21). The indices are \<^verbatim>\<open>uint32_t\<close>
  values below \<^verbatim>\<open>queueFamilyCount\<close>, itself a \<^verbatim>\<open>uint32_t\<close>: no arithmetic on
  them wraps, and the model takes natural numbers.
\<close>

record queue_family_indices_t =
  graphicsFamily :: nat
  didSetGraphicsFamily :: bool
  presentFamily :: nat
  didSetPresentFamily :: bool

text \<open>The \<^verbatim>\<open>memset\<close> of line 222.\<close>

definition zeroed_indices :: queue_family_indices_t where
  "zeroed_indices =
     \<lparr> graphicsFamily = 0, didSetGraphicsFamily = False,
       presentFamily = 0, didSetPresentFamily = False \<rparr>"

text \<open>The loop of lines 231 to 241, at index \<open>i\<close> with the families from \<open>i\<close> on.
  The body assigns \<open>graphicsFamily\<close> for every family; only the assignment of
  \<open>presentFamily\<close> is under a test.\<close>

fun FindQueueFamilies_loop ::
  "queue_family list \<Rightarrow> nat \<Rightarrow> queue_family_indices_t \<Rightarrow> queue_family_indices_t" where
  "FindQueueFamilies_loop [] i indices = indices"
| "FindQueueFamilies_loop (f # fs) i indices =
     (let indices1 = indices \<lparr> graphicsFamily := i, didSetGraphicsFamily := True \<rparr>;
          indices2 = (if surfaceSupported f
                      then indices1 \<lparr> presentFamily := i, didSetPresentFamily := True \<rparr>
                      else indices1)
      in FindQueueFamilies_loop fs (Suc i) indices2)"

definition FindQueueFamilies :: "queue_family list \<Rightarrow> queue_family_indices_t" where
  "FindQueueFamilies families =
     (if length families = 0 then zeroed_indices
      else FindQueueFamilies_loop families 0 zeroed_indices)"

record VkDeviceQueueCreateInfo =
  queueFamilyIndex :: nat
  queueCount :: nat

record VkDeviceCreateInfo =
  pQueueCreateInfos :: "VkDeviceQueueCreateInfo list"
  queueCreateInfoCount :: nat
  ppEnabledExtensionNames :: "string list"
  enabledLayerCount :: nat

text \<open>The structure that \<^verbatim>\<open>CreateLogicalDevice\<close> hands to \<^verbatim>\<open>vkCreateDevice\<close>
  (lines 258 to 286).\<close>

definition deviceCreateInfo :: "queue_family_indices_t \<Rightarrow> VkDeviceCreateInfo" where
  "deviceCreateInfo indices =
     \<lparr> pQueueCreateInfos =
         [\<lparr> queueFamilyIndex = graphicsFamily indices, queueCount = 1 \<rparr>,
          \<lparr> queueFamilyIndex = presentFamily indices, queueCount = 1 \<rparr>],
       queueCreateInfoCount = (if graphicsFamily indices = presentFamily indices then 1 else 2),
       ppEnabledExtensionNames = requiredExtensions,
       enabledLayerCount = 0 \<rparr>"

text \<open>The queue-create entries the API reads: the first \<open>queueCreateInfoCount\<close> ones
  of the array.\<close>

definition queueCreateEntries :: "VkDeviceCreateInfo \<Rightarrow> VkDeviceQueueCreateInfo list" where
  "queueCreateEntries info = take (queueCreateInfoCount info) (pQueueCreateInfos info)"

section \<open>The Vulkan implementation as the program sees it\<close>

text \<open>
  The calls that create objects are answered by the implementation, not by the program.
  The model of the implementation is a counter \<open>fresh\<close> from which new handles are
  taken (so a new handle is not null and differs from every earlier one), an arbitrary
  predicate \<open>rejects\<close> that says which calls fail, the number of images the
  implementation puts into a swapchain, and the stores that remember with which
  parameters an object was created and which commands a command buffer holds.
\<close>

text \<open>
  The field \<^verbatim>\<open>pQueueFamilyIndices\<close> is a pointer to an array of family indices. A
  pointer value is \<^verbatim>\<open>NULL\<close>, or the address of an array that is alive, or the address
  of an array whose lifetime has ended: an array declared inside a block, once control
  has left the block. A read through a pointer of the last kind is undefined behaviour
  in C. The list that such a pointer carries is what the array held when its block
  ended; it is not what a read through the pointer yields.
\<close>

datatype index_array_pointer =
  Pointer_NULL
| Pointer_to_live_array "nat list"
| Pointer_to_dead_array "nat list"

record VkSwapchainCreateInfoKHR =
  sc_minImageCount :: uint32_t
  sc_imageFormat :: VkFormat
  sc_imageColorSpace :: VkColorSpaceKHR
  sc_imageExtent :: VkExtent2D
  sc_imageArrayLayers :: nat
  sc_preTransform :: uint32_t
  sc_presentMode :: VkPresentModeKHR
  sc_imageSharingMode :: VkSharingMode
  sc_queueFamilyIndexCount :: nat
  sc_pQueueFamilyIndices :: index_array_pointer

record VkImageViewCreateInfo =
  iv_image :: handle
  iv_format :: VkFormat
  iv_levelCount :: nat
  iv_layerCount :: nat

record VkFramebufferCreateInfo =
  fb_renderPass :: handle
  fb_attachments :: "handle list"
  fb_width :: uint32_t
  fb_height :: uint32_t
  fb_layers :: nat

record VkRenderPassBeginInfo =
  rp_renderPass :: handle
  rp_framebuffer :: handle
  rp_renderArea :: VkExtent2D
  rp_clearValueCount :: nat

datatype command =
  CmdBeginRenderPass VkRenderPassBeginInfo
| CmdBindPipeline handle
| CmdDraw nat nat nat nat
| CmdEndRenderPass

record driver =
  fresh :: nat
  rejects :: "nat \<Rightarrow> bool"
  imagesCreated :: "VkSwapchainCreateInfoKHR \<Rightarrow> nat"
  deviceInfos :: "handle \<rightharpoonup> VkDeviceCreateInfo"
  swapchainInfos :: "handle \<rightharpoonup> VkSwapchainCreateInfoKHR"
  swapchainImagesOf :: "handle \<rightharpoonup> handle list"
  imageViewInfos :: "handle \<rightharpoonup> VkImageViewCreateInfo"
  framebufferInfos :: "handle \<rightharpoonup> VkFramebufferCreateInfo"
  recorded :: "handle \<rightharpoonup> command list"

text \<open>One call that can fail: whether it does, and the implementation afterwards.\<close>

definition vk_call :: "driver \<Rightarrow> bool \<times> driver" where
  "vk_call drv = (\<not> rejects drv (fresh drv), drv \<lparr> fresh := Suc (fresh drv) \<rparr>)"

text \<open>One call that creates an object: its new handle unless the call fails.\<close>

definition vk_create :: "driver \<Rightarrow> handle option \<times> driver" where
  "vk_create drv =
     (case vk_call drv of
        (False, drv') \<Rightarrow> (None, drv')
      | (True, drv') \<Rightarrow> (Some (fresh drv'), drv'))"

definition vkCreateDevice :: "driver \<Rightarrow> VkDeviceCreateInfo \<Rightarrow> handle option \<times> driver" where
  "vkCreateDevice drv info =
     (case vk_create drv of
        (None, drv') \<Rightarrow> (None, drv')
      | (Some h, drv') \<Rightarrow> (Some h, drv' \<lparr> deviceInfos := (deviceInfos drv')(h \<mapsto> info) \<rparr>))"

text \<open>A new swapchain comes with its images, \<open>imagesCreated drv info\<close> many new
  handles.\<close>

definition vkCreateSwapchainKHR ::
  "driver \<Rightarrow> VkSwapchainCreateInfoKHR \<Rightarrow> handle option \<times> driver" where
  "vkCreateSwapchainKHR drv info =
     (case vk_create drv of
        (None, drv') \<Rightarrow> (None, drv')
      | (Some h, drv') \<Rightarrow>
          (Some h,
           drv' \<lparr> fresh := fresh drv' + imagesCreated drv' info,
                  swapchainInfos := (swapchainInfos drv')(h \<mapsto> info),
                  swapchainImagesOf := (swapchainImagesOf drv')
                     (h \<mapsto> [Suc (fresh drv') ..< Suc (fresh drv' + imagesCreated drv' info)]) \<rparr>))"

definition vkGetSwapchainImagesKHR :: "driver \<Rightarrow> handle \<Rightarrow> handle list" where
  "vkGetSwapchainImagesKHR drv sc =
     (case swapchainImagesOf drv sc of None \<Rightarrow> [] | Some images \<Rightarrow> images)"

definition vkCreateImageView :: "driver \<Rightarrow> VkImageViewCreateInfo \<Rightarrow> handle option \<times> driver" where
  "vkCreateImageView drv info =
     (case vk_create drv of
        (None, drv') \<Rightarrow> (None, drv')
      | (Some h, drv') \<Rightarrow> (Some h, drv' \<lparr> imageViewInfos := (imageViewInfos drv')(h \<mapsto> info) \<rparr>))"

definition vkCreateFramebuffer ::
  "driver \<Rightarrow> VkFramebufferCreateInfo \<Rightarrow> handle option \<times> driver" where
  "vkCreateFramebuffer drv info =
     (case vk_create drv of
        (None, drv') \<Rightarrow> (None, drv')
      | (Some h, drv') \<Rightarrow>
          (Some h, drv' \<lparr> framebufferInfos := (framebufferInfos drv')(h \<mapsto> info) \<rparr>))"

text \<open>\<^verbatim>\<open>vkAllocateCommandBuffers\<close> fills the array with \<open>n\<close> new handles.\<close>

definition vkAllocateCommandBuffers :: "driver \<Rightarrow> nat \<Rightarrow> handle list option \<times> driver" where
  "vkAllocateCommandBuffers drv n =
     (case vk_call drv of
        (False, drv') \<Rightarrow> (None, drv')
      | (True, drv') \<Rightarrow>
          (Some [Suc (fresh drv') ..< Suc (fresh drv' + n)], drv' \<lparr> fresh := fresh drv' + n \<rparr>))"

definition vkBeginCommandBuffer :: "driver \<Rightarrow> handle \<Rightarrow> bool \<times> driver" where
  "vkBeginCommandBuffer drv cb =
     (case vk_call drv of
        (False, drv') \<Rightarrow> (False, drv')
      | (True, drv') \<Rightarrow> (True, drv' \<lparr> recorded := (recorded drv')(cb \<mapsto> []) \<rparr>))"

text \<open>The \<^verbatim>\<open>vkCmd...\<close> calls return nothing; each appends one command to the
  buffer.\<close>

definition vkCmd :: "driver \<Rightarrow> handle \<Rightarrow> command \<Rightarrow> driver" where
  "vkCmd drv cb c =
     drv \<lparr> recorded := (recorded drv)
              (cb \<mapsto> (case recorded drv cb of None \<Rightarrow> [] | Some cs \<Rightarrow> cs) @ [c]) \<rparr>"

definition vkEndCommandBuffer :: "driver \<Rightarrow> handle \<Rightarrow> bool \<times> driver" where
  "vkEndCommandBuffer drv cb = vk_call drv"

section \<open>The global variables (lines 41 to 61)\<close>

record globals =
  physicalDevice :: handle
  logicalDevice :: handle
  queueFamilyIndices :: queue_family_indices_t
  swapChain :: handle
  swapchainImages :: "handle list"
  swapchainImageCount :: nat
  swapchainImageFormat :: VkFormat
  swapchainExtent :: VkExtent2D
  swapChainImageViews :: "handle list"
  renderPass :: handle
  pipelineLayout :: handle
  graphicsPipeline :: handle
  swapchainFramebuffers :: "handle list"
  commandPool :: handle
  commandBuffers :: "handle list"
  imageAvailableSemaphore :: handle
  renderFinishedSemaphore :: handle

text \<open>The globals at program start. Those without an initialiser are zero as well
  (static storage); \<^verbatim>\<open>swapchainImageFormat\<close> is given the enumerator 0 of the header,
  \<^verbatim>\<open>VK_FORMAT_UNDEFINED\<close>.\<close>

definition initial_globals :: globals where
  "initial_globals =
     \<lparr> physicalDevice = VK_NULL_HANDLE, logicalDevice = VK_NULL_HANDLE,
       queueFamilyIndices = zeroed_indices,
       swapChain = VK_NULL_HANDLE, swapchainImages = [], swapchainImageCount = 0,
       swapchainImageFormat = VK_FORMAT_other 0,
       swapchainExtent = \<lparr> width = 0, height = 0 \<rparr>,
       swapChainImageViews = [],
       renderPass = VK_NULL_HANDLE, pipelineLayout = VK_NULL_HANDLE,
       graphicsPipeline = VK_NULL_HANDLE,
       swapchainFramebuffers = [], commandPool = VK_NULL_HANDLE, commandBuffers = [],
       imageAvailableSemaphore = VK_NULL_HANDLE, renderFinishedSemaphore = VK_NULL_HANDLE \<rparr>"

section \<open>Creating the objects (lines 246 to 294 and 368 to 751)\<close>

definition CreateLogicalDevice ::
  "vulkan_instance \<Rightarrow> driver \<Rightarrow> globals \<Rightarrow> failure + driver \<times> globals" where
  "CreateLogicalDevice inst drv g =
     (let indices = FindQueueFamilies (queueFamilies inst (physicalDevice g));
          g1 = g \<lparr> queueFamilyIndices := indices \<rparr>
      in if \<not> didSetGraphicsFamily indices then Inl Failed_to_find_graphics_queue_family
         else if \<not> didSetPresentFamily indices then Inl Failed_to_find_present_queue_family
         else
           (case vkCreateDevice drv (deviceCreateInfo indices) of
              (None, drv1) \<Rightarrow> Inl Failed_to_create_logical_device
            | (Some dev, drv1) \<Rightarrow> Inr (drv1, g1 \<lparr> logicalDevice := dev \<rparr>)))"

text \<open>
  The closing brace of line 399 ends the block that declares the array
  \<^verbatim>\<open>indices\<close> (line 395): from there on the pointer that line 398 stored in the
  create-info points to an array whose lifetime has ended.
\<close>

definition leave_block :: "VkSwapchainCreateInfoKHR \<Rightarrow> VkSwapchainCreateInfoKHR" where
  "leave_block createInfo =
     (case sc_pQueueFamilyIndices createInfo of
        Pointer_to_live_array xs \<Rightarrow>
          createInfo \<lparr> sc_pQueueFamilyIndices := Pointer_to_dead_array xs \<rparr>
      | _ \<Rightarrow> createInfo)"

text \<open>The structure that \<^verbatim>\<open>CreateSwapChain\<close> hands to \<^verbatim>\<open>vkCreateSwapchainKHR\<close>
  at line 405 (built in lines 373 to 403). The fields that the initialiser of lines 378
  to 392 does not name are zero: exclusive sharing, count 0, \<^verbatim>\<open>NULL\<close>.\<close>

definition swapchainCreateInfo ::
  "swapchain_support_details_t \<Rightarrow> queue_family_indices_t \<Rightarrow> VkSurfaceFormatKHR \<Rightarrow>
   VkPresentModeKHR \<Rightarrow> VkExtent2D \<Rightarrow> VkSwapchainCreateInfoKHR" where
  "swapchainCreateInfo details indices surfaceFormat presentMode extent =
     (let createInfo =
            \<lparr> sc_minImageCount = imageCount details,
              sc_imageFormat = format surfaceFormat,
              sc_imageColorSpace = colorSpace surfaceFormat,
              sc_imageExtent = extent,
              sc_imageArrayLayers = 1,
              sc_preTransform = currentTransform (capabilities details),
              sc_presentMode = presentMode,
              sc_imageSharingMode = VK_SHARING_MODE_EXCLUSIVE,
              sc_queueFamilyIndexCount = 0,
              sc_pQueueFamilyIndices = Pointer_NULL \<rparr>
      in if graphicsFamily indices \<noteq> presentFamily indices
         then leave_block
                (createInfo \<lparr> sc_imageSharingMode := VK_SHARING_MODE_CONCURRENT,
                              sc_queueFamilyIndexCount := 2,
                              sc_pQueueFamilyIndices :=
                                Pointer_to_live_array
                                  [graphicsFamily indices, presentFamily indices] \<rparr>)
         else createInfo \<lparr> sc_imageSharingMode := VK_SHARING_MODE_EXCLUSIVE,
                           sc_queueFamilyIndexCount := 0,
                           sc_pQueueFamilyIndices := Pointer_NULL \<rparr>)"

definition CreateSwapChain ::
  "swapchain_support_details_t \<Rightarrow> driver \<Rightarrow> globals \<Rightarrow> failure + driver \<times> globals" where
  "CreateSwapChain details drv g =
     (case ChooseSwapSurfaceFormat details of
        Inl e \<Rightarrow> Inl e
      | Inr surfaceFormat \<Rightarrow>
          (let presentMode = ChoosePresentMode details;
               extent = ChooseSwapExtent details;
               createInfo = swapchainCreateInfo details (queueFamilyIndices g)
                              surfaceFormat presentMode extent
           in case vkCreateSwapchainKHR drv createInfo of
                (None, drv1) \<Rightarrow> Inl Failed_to_create_swapchain
              | (Some sc, drv1) \<Rightarrow>
                  (let images = vkGetSwapchainImagesKHR drv1 sc
                   in Inr (drv1,
                           g \<lparr> swapChain := sc,
                               swapchainImageCount := length images,
                               swapchainImages := images,
                               swapchainImageFormat := format surfaceFormat,
                               swapchainExtent := extent \<rparr>))))"

text \<open>
  \<^verbatim>\<open>CreateImageViews\<close> (lines 417 to 444): the \<^verbatim>\<open>calloc\<close> of an array of
  \<^verbatim>\<open>swapchainImageCount\<close> null handles, then the loop, here from index \<open>i\<close> on.
  The constant fields of the create-info other than the two counts are left out.
\<close>

function CreateImageViews_loop :: "nat \<Rightarrow> driver \<Rightarrow> globals \<Rightarrow> failure + driver \<times> globals" where
  "CreateImageViews_loop i drv g =
     (if i < swapchainImageCount g
      then
        (if \<not> i < length (swapchainImages g) then Inl Read_outside_array
         else
           (case vkCreateImageView drv
                   \<lparr> iv_image = swapchainImages g ! i,
                     iv_format = swapchainImageFormat g,
                     iv_levelCount = 1,
                     iv_layerCount = 1 \<rparr> of
              (None, drv') \<Rightarrow> Inl Failed_to_create_image_views
            | (Some view, drv') \<Rightarrow>
                CreateImageViews_loop (Suc i) drv'
                  (g \<lparr> swapChainImageViews := (swapChainImageViews g)[i := view] \<rparr>)))
      else Inr (drv, g))"
  by pat_completeness auto
termination
  by (relation "measure (\<lambda>(i, drv, g). swapchainImageCount g - i)") auto

definition CreateImageViews :: "driver \<Rightarrow> globals \<Rightarrow> failure + driver \<times> globals" where
  "CreateImageViews drv g =
     CreateImageViews_loop 0 drv
       (g \<lparr> swapChainImageViews := replicate (swapchainImageCount g) VK_NULL_HANDLE \<rparr>)"

text \<open>\<^verbatim>\<open>CreateRenderPass\<close> (lines 461 to 506): one creating call.\<close>

definition CreateRenderPass :: "driver \<Rightarrow> globals \<Rightarrow> failure + driver \<times> globals" where
  "CreateRenderPass drv g =
     (case vk_create drv of
        (None, drv') \<Rightarrow> Inl Failed_to_create_render_pass
      | (Some rp, drv') \<Rightarrow> Inr (drv', g \<lparr> renderPass := rp \<rparr>))"

text \<open>\<^verbatim>\<open>CreateGraphicsPipeline\<close> (lines 508 to 649): two shader modules, the
  pipeline layout, the pipeline. Reading the shader files is outside the model.\<close>

definition CreateGraphicsPipeline :: "driver \<Rightarrow> globals \<Rightarrow> failure + driver \<times> globals" where
  "CreateGraphicsPipeline drv g =
     (case vk_create drv of
        (None, drv1) \<Rightarrow> Inl Failed_to_create_shader_module
      | (Some vertexShaderModule, drv1) \<Rightarrow>
          (case vk_create drv1 of
             (None, drv2) \<Rightarrow> Inl Failed_to_create_shader_module
           | (Some fragmentShaderModule, drv2) \<Rightarrow>
               (case vk_create drv2 of
                  (None, drv3) \<Rightarrow> Inl Failed_to_create_pipeline_layout
                | (Some layout, drv3) \<Rightarrow>
                    (case vk_create drv3 of
                       (None, drv4) \<Rightarrow> Inl Failed_to_create_graphics_pipeline
                     | (Some pipeline, drv4) \<Rightarrow>
                         Inr (drv4, g \<lparr> pipelineLayout := layout,
                                         graphicsPipeline := pipeline \<rparr>)))))"

text \<open>\<^verbatim>\<open>CreateFramebuffers\<close> (lines 651 to 673).\<close>

function CreateFramebuffers_loop :: "nat \<Rightarrow> driver \<Rightarrow> globals \<Rightarrow> failure + driver \<times> globals" where
  "CreateFramebuffers_loop i drv g =
     (if i < swapchainImageCount g
      then
        (if \<not> i < length (swapChainImageViews g) then Inl Read_outside_array
         else
           (case vkCreateFramebuffer drv
                   \<lparr> fb_renderPass = renderPass g,
                     fb_attachments = [swapChainImageViews g ! i],
                     fb_width = width (swapchainExtent g),
                     fb_height = height (swapchainExtent g),
                     fb_layers = 1 \<rparr> of
              (None, drv') \<Rightarrow> Inl Failed_to_create_framebuffer
            | (Some fb, drv') \<Rightarrow>
                CreateFramebuffers_loop (Suc i) drv'
                  (g \<lparr> swapchainFramebuffers := (swapchainFramebuffers g)[i := fb] \<rparr>)))
      else Inr (drv, g))"
  by pat_completeness auto
termination
  by (relation "measure (\<lambda>(i, drv, g). swapchainImageCount g - i)") auto

definition CreateFramebuffers :: "driver \<Rightarrow> globals \<Rightarrow> failure + driver \<times> globals" where
  "CreateFramebuffers drv g =
     CreateFramebuffers_loop 0 drv
       (g \<lparr> swapchainFramebuffers := replicate (swapchainImageCount g) VK_NULL_HANDLE \<rparr>)"

text \<open>\<^verbatim>\<open>CreateCommandPool\<close> (lines 675 to 685).\<close>

definition CreateCommandPool :: "driver \<Rightarrow> globals \<Rightarrow> failure + driver \<times> globals" where
  "CreateCommandPool drv g =
     (case vk_create drv of
        (None, drv') \<Rightarrow> Inl Failed_to_create_command_pool
      | (Some pool, drv') \<Rightarrow> Inr (drv', g \<lparr> commandPool := pool \<rparr>))"

text \<open>
  \<^verbatim>\<open>CreateCommandBuffers\<close> (lines 687 to 737). The commands that the body of the loop
  records into \<^verbatim>\<open>commandBuffers[i]\<close>, in order, are what
  \<open>record_commands\<close> appends; the clear colour, four floating-point numbers, is left out.
\<close>

definition renderPassBeginInfo :: "globals \<Rightarrow> nat \<Rightarrow> VkRenderPassBeginInfo" where
  "renderPassBeginInfo g i =
     \<lparr> rp_renderPass = renderPass g,
       rp_framebuffer = swapchainFramebuffers g ! i,
       rp_renderArea = swapchainExtent g,
       rp_clearValueCount = 1 \<rparr>"

definition record_commands :: "driver \<Rightarrow> globals \<Rightarrow> nat \<Rightarrow> driver" where
  "record_commands drv g i =
     (let cb = commandBuffers g ! i;
          drv1 = vkCmd drv cb (CmdBeginRenderPass (renderPassBeginInfo g i));
          drv2 = vkCmd drv1 cb (CmdBindPipeline (graphicsPipeline g));
          drv3 = vkCmd drv2 cb (CmdDraw 3 1 0 0)
      in vkCmd drv3 cb CmdEndRenderPass)"

function CreateCommandBuffers_loop :: "nat \<Rightarrow> driver \<Rightarrow> globals \<Rightarrow> failure + driver \<times> globals" where
  "CreateCommandBuffers_loop i drv g =
     (if i < swapchainImageCount g
      then
        (if \<not> (i < length (commandBuffers g) \<and> i < length (swapchainFramebuffers g))
         then Inl Read_outside_array
         else
           (case vkBeginCommandBuffer drv (commandBuffers g ! i) of
              (False, drv1) \<Rightarrow> Inl Failed_to_begin_recording_command_buffer
            | (True, drv1) \<Rightarrow>
                (case vkEndCommandBuffer (record_commands drv1 g i) (commandBuffers g ! i) of
                   (False, drv2) \<Rightarrow> Inl Failed_to_record_command_buffer
                 | (True, drv2) \<Rightarrow> CreateCommandBuffers_loop (Suc i) drv2 g)))
      else Inr (drv, g))"
  by pat_completeness auto
termination
  by (relation "measure (\<lambda>(i, drv, g). swapchainImageCount g - i)") auto

definition CreateCommandBuffers :: "driver \<Rightarrow> globals \<Rightarrow> failure + driver \<times> globals" where
  "CreateCommandBuffers drv g =
     (case vkAllocateCommandBuffers drv (swapchainImageCount g) of
        (None, drv1) \<Rightarrow> Inl Failed_to_allocate_command_buffers
      | (Some buffers, drv1) \<Rightarrow> CreateCommandBuffers_loop 0 drv1 (g \<lparr> commandBuffers := buffers \<rparr>))"

text \<open>\<^verbatim>\<open>CreateSemaphores\<close> (lines 739 to 751).\<close>

definition CreateSemaphores :: "driver \<Rightarrow> globals \<Rightarrow> failure + driver \<times> globals" where
  "CreateSemaphores drv g =
     (case vk_create drv of
        (None, drv1) \<Rightarrow> Inl Failed_to_create_image_available_semaphore
      | (Some available, drv1) \<Rightarrow>
          (case vk_create drv1 of
             (None, drv2) \<Rightarrow> Inl Failed_to_create_render_finished_semaphore
           | (Some finished, drv2) \<Rightarrow>
               Inr (drv2, g \<lparr> imageAvailableSemaphore := available,
                               renderFinishedSemaphore := finished \<rparr>)))"

text \<open>Running one step after another, the first failure ending the process.\<close>

definition and_then ::
  "failure + driver \<times> globals \<Rightarrow> (driver \<Rightarrow> globals \<Rightarrow> failure + driver \<times> globals) \<Rightarrow>
   failure + driver \<times> globals" where
  "and_then r f = (case r of Inl e \<Rightarrow> Inl e | Inr (drv, g) \<Rightarrow> f drv g)"

text \<open>
  The part of \<^verbatim>\<open>main\<close> from the swapchain to the command buffers (lines 804 to 818),
  \<open>details\<close> being what \<^verbatim>\<open>QuerySwapchainSupport\<close> returned.
\<close>

definition create_swapchain_resources ::
  "swapchain_support_details_t \<Rightarrow> driver \<Rightarrow> globals \<Rightarrow> failure + driver \<times> globals" where
  "create_swapchain_resources details drv g =
     (if length (formats details) = 0 \<or> length (presentModes details) = 0
      then Inl No_valid_swapchain_configuration_found
      else
        and_then (and_then (and_then (and_then (and_then (and_then
          (CreateSwapChain details drv g)
          CreateImageViews)
          CreateRenderPass)
          CreateGraphicsPipeline)
          CreateFramebuffers)
          CreateCommandPool)
          CreateCommandBuffers)"

text \<open>
  \<^verbatim>\<open>main\<close> from line 801 to line 819, all that precedes \<^verbatim>\<open>DrawFrame\<close> once
  the instance and the surface exist: device selection, logical device, the swapchain
  and what hangs on it, the semaphores. \<open>support\<close> gives for a physical device
  what \<^verbatim>\<open>QuerySwapchainSupport\<close> returns for it and the surface.
\<close>

definition main_init ::
  "vulkan_instance \<Rightarrow> (handle \<Rightarrow> swapchain_support_details_t) \<Rightarrow> driver \<Rightarrow>
   failure + driver \<times> globals" where
  "main_init inst support drv =
     (case PickPhysicalVulkanDevice inst (physicalDevice initial_globals) of
        Inl e \<Rightarrow> Inl e
      | Inr pd \<Rightarrow>
          and_then
            (and_then (CreateLogicalDevice inst drv (initial_globals \<lparr> physicalDevice := pd \<rparr>))
               (\<lambda>drv1 g1. create_swapchain_resources (support (physicalDevice g1)) drv1 g1))
            CreateSemaphores)"

section \<open>Example inputs\<close>

text \<open>Capabilities with the sentinel as current extent and wide bounds.\<close>

definition details_sentinel :: swapchain_support_details_t where
  "details_sentinel =
     \<lparr> capabilities =
         \<lparr> minImageCount = 2, maxImageCount = 2,
           currentExtent = \<lparr> width = UINT32_MAX, height = UINT32_MAX \<rparr>,
           minImageExtent = \<lparr> width = 1, height = 1 \<rparr>,
           maxImageExtent = \<lparr> width = 4096, height = 4096 \<rparr>,
           currentTransform = 1 \<rparr>,
       formats =
         [\<lparr> format = VK_FORMAT_other 37, colorSpace = VK_COLOR_SPACE_SRGB_NONLINEAR_KHR \<rparr>,
          \<lparr> format = VK_FORMAT_B8G8R8A8_UNORM, colorSpace = VK_COLOR_SPACE_SRGB_NONLINEAR_KHR \<rparr>],
       presentModes = [VK_PRESENT_MODE_FIFO_KHR, VK_PRESENT_MODE_MAILBOX_KHR] \<rparr>"

text \<open>Capabilities with the sentinel as current extent whose bounds exclude 800 by
  600 from above.\<close>

definition details_small :: swapchain_support_details_t where
  "details_small =
     \<lparr> capabilities =
         \<lparr> minImageCount = 1, maxImageCount = 0,
           currentExtent = \<lparr> width = UINT32_MAX, height = UINT32_MAX \<rparr>,
           minImageExtent = \<lparr> width = 16, height = 16 \<rparr>,
           maxImageExtent = \<lparr> width = 640, height = 480 \<rparr>,
           currentTransform = 1 \<rparr>,
       formats =
         [\<lparr> format = VK_FORMAT_other 37, colorSpace = VK_COLOR_SPACE_SRGB_NONLINEAR_KHR \<rparr>,
          \<lparr> format = VK_FORMAT_B8G8R8A8_UNORM, colorSpace = VK_COLOR_SPACE_other 1 \<rparr>],
       presentModes = [VK_PRESENT_MODE_other 0] \<rparr>"

text \<open>Capabilities that report a current extent: its width is not the sentinel, its
  height is, and the width lies above the maximum.\<close>

definition details_reported :: swapchain_support_details_t where
  "details_reported =
     \<lparr> capabilities =
         \<lparr> minImageCount = 2, maxImageCount = 8,
           currentExtent = \<lparr> width = 5000, height = UINT32_MAX \<rparr>,
           minImageExtent = \<lparr> width = 1, height = 1 \<rparr>,
           maxImageExtent = \<lparr> width = 4096, height = 4096 \<rparr>,
           currentTransform = 1 \<rparr>,
       formats = [\<lparr> format = VK_FORMAT_other 50, colorSpace = VK_COLOR_SPACE_other 7 \<rparr>],
       presentModes = [VK_PRESENT_MODE_other 3, VK_PRESENT_MODE_FIFO_KHR] \<rparr>"

text \<open>Capabilities whose current extent has the width \<^verbatim>\<open>UINT32_MAX\<close> and the height
  77, within the reported bounds: the width is the sentinel value, the extent is not the
  sentinel extent (both components \<^verbatim>\<open>UINT32_MAX\<close>).\<close>

definition details_width_sentinel :: swapchain_support_details_t where
  "details_width_sentinel =
     \<lparr> capabilities =
         \<lparr> minImageCount = 2, maxImageCount = 3,
           currentExtent = \<lparr> width = UINT32_MAX, height = 77 \<rparr>,
           minImageExtent = \<lparr> width = 1, height = 1 \<rparr>,
           maxImageExtent = \<lparr> width = UINT32_MAX, height = 4096 \<rparr>,
           currentTransform = 1 \<rparr>,
       formats =
         [\<lparr> format = VK_FORMAT_B8G8R8A8_UNORM, colorSpace = VK_COLOR_SPACE_SRGB_NONLINEAR_KHR \<rparr>],
       presentModes = [VK_PRESENT_MODE_FIFO_KHR] \<rparr>"

text \<open>Two queue families: the first one does graphics and presents, the second one
  (a transfer-only family, say) does neither.\<close>

definition families_graphics_first :: "queue_family list" where
  "families_graphics_first =
     [\<lparr> supportsGraphics = True, surfaceSupported = True \<rparr>,
      \<lparr> supportsGraphics = False, surfaceSupported = False \<rparr>]"

text \<open>One queue family that presents and does no graphics.\<close>

definition families_no_graphics :: "queue_family list" where
  "families_no_graphics = [\<lparr> supportsGraphics = False, surfaceSupported = True \<rparr>]"

text \<open>An implementation that rejects no call and creates as many swapchain images as
  the program asks for at least.\<close>

definition accepting_driver :: driver where
  "accepting_driver =
     \<lparr> fresh = 0, rejects = (\<lambda>n. False),
       imagesCreated = (\<lambda>info. unat (sc_minImageCount info)),
       deviceInfos = Map.empty, swapchainInfos = Map.empty, swapchainImagesOf = Map.empty,
       imageViewInfos = Map.empty, framebufferInfos = Map.empty, recorded = Map.empty \<rparr>"

text \<open>An instance with two devices, handles 7 and 9, the second one discrete, each with
  the swapchain extension and the queue families given.\<close>

definition example_instance :: "queue_family list \<Rightarrow> vulkan_instance" where
  "example_instance families =
     \<lparr> enumerated = [7, 9],
       deviceType = (\<lambda>d. if d = 9 then VK_PHYSICAL_DEVICE_TYPE_DISCRETE_GPU
                          else VK_PHYSICAL_DEVICE_TYPE_other 1),
       extensionNames = (\<lambda>d. [''VK_KHR_maintenance1'', ''VK_KHR_swapchain'']),
       queueFamilies = (\<lambda>d. families) \<rparr>"

text \<open>The same two devices, neither of them discrete.\<close>

definition integrated_instance :: vulkan_instance where
  "integrated_instance =
     \<lparr> enumerated = [7, 9],
       deviceType = (\<lambda>d. VK_PHYSICAL_DEVICE_TYPE_other 1),
       extensionNames = (\<lambda>d. [''VK_KHR_swapchain'']),
       queueFamilies = (\<lambda>d. [\<lparr> supportsGraphics = True, surfaceSupported = True \<rparr>]) \<rparr>"

section \<open>Helper facts\<close>

lemma MAX_macro_max: "MAX_macro x y = max x y"
  by (auto simp: MAX_macro_def max_def)

lemma MIN_macro_min: "MIN_macro x y = min x y"
  by (auto simp: MIN_macro_def min_def)

lemma ChooseSwapSurfaceFormat_loop_Some:
  "ChooseSwapSurfaceFormat_loop fs = Some f \<Longrightarrow>
     f \<in> set fs \<and> format f = VK_FORMAT_B8G8R8A8_UNORM \<and>
     colorSpace f = VK_COLOR_SPACE_SRGB_NONLINEAR_KHR"
  by (induction fs) (auto split: if_splits)

lemma ChooseSwapSurfaceFormat_loop_None:
  "ChooseSwapSurfaceFormat_loop fs = None \<longleftrightarrow>
     (\<forall>f \<in> set fs. \<not> (format f = VK_FORMAT_B8G8R8A8_UNORM \<and>
                         colorSpace f = VK_COLOR_SPACE_SRGB_NONLINEAR_KHR))"
  by (induction fs) auto

lemma ChoosePresentMode_loop_eq:
  "ChoosePresentMode_loop ms =
     (if VK_PRESENT_MODE_MAILBOX_KHR \<in> set ms then Some VK_PRESENT_MODE_MAILBOX_KHR else None)"
  by (induction ms) auto

section \<open>Swapchain negotiation: extent, image count, format, present mode\<close>

text \<open>What the clamping of lines 362 and 363 gives in each component, when the width of
  the current extent is \<^verbatim>\<open>UINT32_MAX\<close>.\<close>

lemma ChooseSwapExtent_componentwise:
  assumes "width (currentExtent (capabilities details)) = UINT32_MAX"
  shows "width (minImageExtent (capabilities details)) \<le> width (ChooseSwapExtent details)"
    and "height (minImageExtent (capabilities details)) \<le> height (ChooseSwapExtent details)"
    and "width (minImageExtent (capabilities details)) \<le> width (maxImageExtent (capabilities details)) \<Longrightarrow>
           width (ChooseSwapExtent details) \<le> width (maxImageExtent (capabilities details))"
    and "height (minImageExtent (capabilities details)) \<le> height (maxImageExtent (capabilities details)) \<Longrightarrow>
           height (ChooseSwapExtent details) \<le> height (maxImageExtent (capabilities details))"
    and "width (minImageExtent (capabilities details)) \<le> 800 \<Longrightarrow>
         800 \<le> width (maxImageExtent (capabilities details)) \<Longrightarrow>
           width (ChooseSwapExtent details) = 800"
    and "height (minImageExtent (capabilities details)) \<le> 600 \<Longrightarrow>
         600 \<le> height (maxImageExtent (capabilities details)) \<Longrightarrow>
           height (ChooseSwapExtent details) = 600"
  using assms
  by (auto simp: ChooseSwapExtent_def MAX_macro_max MIN_macro_min WIDTH_def HEIGHT_def)

text \<open>
  C3, amended in what counts as the sentinel. For every capabilities record whose
  current extent has the width \<^verbatim>\<open>UINT32_MAX\<close> (the height is not looked at), and whose
  minimum extent does not exceed its maximum extent, as the API guarantees, the extent
  chosen for the request 800 by 600 lies between the minimum and the maximum extent in
  both components; it is 800 by 600 when that request lies within the bounds. For every
  capabilities record whose current extent has a width other than \<^verbatim>\<open>UINT32_MAX\<close>, the
  current extent is returned as reported.
\<close>

theorem ChooseSwapExtent_sentinel_by_width:
  "(width (currentExtent (capabilities details)) = UINT32_MAX \<longrightarrow>
      (width (minImageExtent (capabilities details)) \<le> width (maxImageExtent (capabilities details)) \<and>
       height (minImageExtent (capabilities details)) \<le> height (maxImageExtent (capabilities details)) \<longrightarrow>
         width (minImageExtent (capabilities details)) \<le> width (ChooseSwapExtent details) \<and>
         width (ChooseSwapExtent details) \<le> width (maxImageExtent (capabilities details)) \<and>
         height (minImageExtent (capabilities details)) \<le> height (ChooseSwapExtent details) \<and>
         height (ChooseSwapExtent details) \<le> height (maxImageExtent (capabilities details))) \<and>
      (width (minImageExtent (capabilities details)) \<le> 800 \<and>
       800 \<le> width (maxImageExtent (capabilities details)) \<and>
       height (minImageExtent (capabilities details)) \<le> 600 \<and>
       600 \<le> height (maxImageExtent (capabilities details)) \<longrightarrow>
         ChooseSwapExtent details = \<lparr> width = 800, height = 600 \<rparr>)) \<and>
   (width (currentExtent (capabilities details)) \<noteq> UINT32_MAX \<longrightarrow>
      ChooseSwapExtent details = currentExtent (capabilities details))"
proof (intro conjI impI)
  assume "width (currentExtent (capabilities details)) \<noteq> UINT32_MAX"
  then show "ChooseSwapExtent details = currentExtent (capabilities details)"
    by (simp add: ChooseSwapExtent_def)
next
  assume s: "width (currentExtent (capabilities details)) = UINT32_MAX"
    and b: "width (minImageExtent (capabilities details)) \<le> 800 \<and>
       800 \<le> width (maxImageExtent (capabilities details)) \<and>
       height (minImageExtent (capabilities details)) \<le> 600 \<and>
       600 \<le> height (maxImageExtent (capabilities details))"
  from ChooseSwapExtent_componentwise(5) [OF s] ChooseSwapExtent_componentwise(6) [OF s] b
  have "width (ChooseSwapExtent details) = 800" and "height (ChooseSwapExtent details) = 600"
    by simp_all
  then show "ChooseSwapExtent details = \<lparr> width = 800, height = 600 \<rparr>"
    by simp
qed (simp_all add: ChooseSwapExtent_componentwise)

text \<open>The theorem at four inputs: bounds that contain the request, bounds below the
  request, a current extent of width \<^verbatim>\<open>UINT32_MAX\<close> and height 77, and a reported
  current extent.\<close>

theorem ChooseSwapExtent_sentinel_by_width_witness:
  "width (currentExtent (capabilities details_sentinel)) = UINT32_MAX \<and>
   width (minImageExtent (capabilities details_sentinel)) \<le> 800 \<and>
   800 \<le> width (maxImageExtent (capabilities details_sentinel)) \<and>
   height (minImageExtent (capabilities details_sentinel)) \<le> 600 \<and>
   600 \<le> height (maxImageExtent (capabilities details_sentinel)) \<and>
   ChooseSwapExtent details_sentinel = \<lparr> width = 800, height = 600 \<rparr> \<and>
   width (currentExtent (capabilities details_small)) = UINT32_MAX \<and>
   width (minImageExtent (capabilities details_small))
     \<le> width (maxImageExtent (capabilities details_small)) \<and>
   height (minImageExtent (capabilities details_small))
     \<le> height (maxImageExtent (capabilities details_small)) \<and>
   width (minImageExtent (capabilities details_small)) \<le> width (ChooseSwapExtent details_small) \<and>
   width (ChooseSwapExtent details_small) \<le> width (maxImageExtent (capabilities details_small)) \<and>
   height (minImageExtent (capabilities details_small)) \<le> height (ChooseSwapExtent details_small) \<and>
   height (ChooseSwapExtent details_small) \<le> height (maxImageExtent (capabilities details_small)) \<and>
   ChooseSwapExtent details_small = \<lparr> width = 640, height = 480 \<rparr> \<and>
   width (currentExtent (capabilities details_width_sentinel)) = UINT32_MAX \<and>
   height (currentExtent (capabilities details_width_sentinel)) = 77 \<and>
   ChooseSwapExtent details_width_sentinel = \<lparr> width = 800, height = 600 \<rparr> \<and>
   width (currentExtent (capabilities details_reported)) \<noteq> UINT32_MAX \<and>
   ChooseSwapExtent details_reported = currentExtent (capabilities details_reported)"
proof -
  have s1: "width (currentExtent (capabilities details_sentinel)) = UINT32_MAX"
    and w1: "width (minImageExtent (capabilities details_sentinel)) \<le> 800"
    and w1': "800 \<le> width (maxImageExtent (capabilities details_sentinel))"
    and h1: "height (minImageExtent (capabilities details_sentinel)) \<le> 600"
    and h1': "600 \<le> height (maxImageExtent (capabilities details_sentinel))"
    by (simp_all add: details_sentinel_def)
  from ChooseSwapExtent_sentinel_by_width [of details_sentinel] s1 w1 w1' h1 h1'
  have r1: "ChooseSwapExtent details_sentinel = \<lparr> width = 800, height = 600 \<rparr>"
    by blast
  have s2: "width (currentExtent (capabilities details_small)) = UINT32_MAX"
    and w2: "width (minImageExtent (capabilities details_small))
               \<le> width (maxImageExtent (capabilities details_small))"
    and h2: "height (minImageExtent (capabilities details_small))
               \<le> height (maxImageExtent (capabilities details_small))"
    by (simp_all add: details_small_def)
  from ChooseSwapExtent_sentinel_by_width [of details_small] s2 w2 h2
  have r2: "width (minImageExtent (capabilities details_small)) \<le> width (ChooseSwapExtent details_small)"
    "width (ChooseSwapExtent details_small) \<le> width (maxImageExtent (capabilities details_small))"
    "height (minImageExtent (capabilities details_small)) \<le> height (ChooseSwapExtent details_small)"
    "height (ChooseSwapExtent details_small) \<le> height (maxImageExtent (capabilities details_small))"
    by blast+
  have small: "ChooseSwapExtent details_small = \<lparr> width = 640, height = 480 \<rparr>"
    by (simp add: details_small_def ChooseSwapExtent_def MAX_macro_def MIN_macro_def
        UINT32_MAX_def WIDTH_def HEIGHT_def)
  have s3: "width (currentExtent (capabilities details_width_sentinel)) = UINT32_MAX"
    and t3: "height (currentExtent (capabilities details_width_sentinel)) = 77"
    and w3: "width (minImageExtent (capabilities details_width_sentinel)) \<le> 800"
    and w3': "800 \<le> width (maxImageExtent (capabilities details_width_sentinel))"
    and h3: "height (minImageExtent (capabilities details_width_sentinel)) \<le> 600"
    and h3': "600 \<le> height (maxImageExtent (capabilities details_width_sentinel))"
    by (simp_all add: details_width_sentinel_def UINT32_MAX_def)
  from ChooseSwapExtent_sentinel_by_width [of details_width_sentinel] s3 w3 w3' h3 h3'
  have r3: "ChooseSwapExtent details_width_sentinel = \<lparr> width = 800, height = 600 \<rparr>"
    by blast
  have n4: "width (currentExtent (capabilities details_reported)) \<noteq> UINT32_MAX"
    by (simp add: details_reported_def UINT32_MAX_def)
  from ChooseSwapExtent_sentinel_by_width [of details_reported] n4
  have r4: "ChooseSwapExtent details_reported = currentExtent (capabilities details_reported)"
    by blast
  from s1 w1 w1' h1 h1' r1 s2 w2 h2 r2 small s3 t3 r3 n4 r4
  show ?thesis
    by blast
qed

text \<open>
  C3 as the claim states it fails. The undefined sentinel of the API is the extent with
  both components \<^verbatim>\<open>UINT32_MAX\<close>. The current extent of \<open>details_width_sentinel\<close>,
  of width \<^verbatim>\<open>UINT32_MAX\<close> and height 77, is not that extent, and it lies within the
  reported bounds, which are ordered; the function does not return it: it returns the
  clamped request, 800 by 600.
\<close>

theorem ChooseSwapExtent_width_sentinel_counterexample:
  "currentExtent (capabilities details_width_sentinel) = \<lparr> width = UINT32_MAX, height = 77 \<rparr> \<and>
   currentExtent (capabilities details_width_sentinel)
     \<noteq> \<lparr> width = UINT32_MAX, height = UINT32_MAX \<rparr> \<and>
   width (minImageExtent (capabilities details_width_sentinel))
     \<le> width (currentExtent (capabilities details_width_sentinel)) \<and>
   width (currentExtent (capabilities details_width_sentinel))
     \<le> width (maxImageExtent (capabilities details_width_sentinel)) \<and>
   height (minImageExtent (capabilities details_width_sentinel))
     \<le> height (currentExtent (capabilities details_width_sentinel)) \<and>
   height (currentExtent (capabilities details_width_sentinel))
     \<le> height (maxImageExtent (capabilities details_width_sentinel)) \<and>
   ChooseSwapExtent details_width_sentinel = \<lparr> width = 800, height = 600 \<rparr> \<and>
   ChooseSwapExtent details_width_sentinel
     \<noteq> currentExtent (capabilities details_width_sentinel)"
  by (simp add: details_width_sentinel_def ChooseSwapExtent_def MAX_macro_def MIN_macro_def
      UINT32_MAX_def WIDTH_def HEIGHT_def)

text \<open>
  C4. The image count that \<^verbatim>\<open>CreateSwapChain\<close> requests is \<open>minImageCount + 1\<close> in
  \<^verbatim>\<open>uint32_t\<close> arithmetic, capped to \<open>maxImageCount\<close> when \<open>maxImageCount\<close> is
  not zero. It is the field \<open>sc_minImageCount\<close> of the create-info whatever the other
  arguments are. With minimum 2 and maximum 2 it is 2; with minimum 1 and maximum 0 it
  is 2.
\<close>

theorem imageCount_min_plus_one_capped:
  "imageCount details =
     (if maxImageCount (capabilities details) \<noteq> 0
      then min (minImageCount (capabilities details) + 1) (maxImageCount (capabilities details))
      else minImageCount (capabilities details) + 1) \<and>
   sc_minImageCount (swapchainCreateInfo details indices surfaceFormat presentMode extent)
     = imageCount details \<and>
   imageCount details_sentinel = 2 \<and>
   minImageCount (capabilities details_sentinel) = 2 \<and>
   maxImageCount (capabilities details_sentinel) = 2 \<and>
   imageCount details_small = 2 \<and>
   minImageCount (capabilities details_small) = 1 \<and>
   maxImageCount (capabilities details_small) = 0"
proof -
  have "imageCount details =
     (if maxImageCount (capabilities details) \<noteq> 0
      then min (minImageCount (capabilities details) + 1) (maxImageCount (capabilities details))
      else minImageCount (capabilities details) + 1)"
    by (auto simp: imageCount_def Let_def min_def word_gt_0)
  moreover have "sc_minImageCount
      (swapchainCreateInfo details indices surfaceFormat presentMode extent) = imageCount details"
    by (simp add: swapchainCreateInfo_def leave_block_def Let_def)
  moreover have "imageCount details_sentinel = 2"
    by (simp add: imageCount_def details_sentinel_def Let_def)
  moreover have "imageCount details_small = 2"
    by (simp add: imageCount_def details_small_def Let_def)
  ultimately show ?thesis
    by (simp add: details_sentinel_def details_small_def)
qed

text \<open>The theorem at capabilities with minimum 2 and maximum 8: three images.\<close>

theorem imageCount_witness:
  "maxImageCount (capabilities details_reported) \<noteq> 0 \<and> imageCount details_reported = 3"
  using imageCount_min_plus_one_capped [of details_reported]
  by (simp add: details_reported_def)

text \<open>
  C10. \<^verbatim>\<open>ChooseSwapExtent\<close> looks at the width of the current extent only: whenever
  that width is not \<^verbatim>\<open>UINT32_MAX\<close>, the current extent is returned as it is, whatever
  its height and whatever the extent bounds.
\<close>

theorem ChooseSwapExtent_tests_width_only:
  "width (currentExtent (capabilities details)) \<noteq> UINT32_MAX \<Longrightarrow>
   ChooseSwapExtent details = currentExtent (capabilities details)"
  by (simp add: ChooseSwapExtent_def)

text \<open>The theorem at a current extent of width 5000, above the maximum width 4096,
  and of height \<^verbatim>\<open>UINT32_MAX\<close>: it is returned with both components unchanged.\<close>

theorem ChooseSwapExtent_tests_width_only_witness:
  "width (currentExtent (capabilities details_reported)) \<noteq> UINT32_MAX \<and>
   height (currentExtent (capabilities details_reported)) = UINT32_MAX \<and>
   \<not> width (currentExtent (capabilities details_reported))
        \<le> width (maxImageExtent (capabilities details_reported)) \<and>
   ChooseSwapExtent details_reported = \<lparr> width = 5000, height = UINT32_MAX \<rparr>"
proof -
  have w: "width (currentExtent (capabilities details_reported)) \<noteq> UINT32_MAX"
    by (simp add: details_reported_def UINT32_MAX_def)
  from ChooseSwapExtent_tests_width_only [OF w] w show ?thesis
    by (simp add: details_reported_def UINT32_MAX_def)
qed

text \<open>
  C6. For a list of formats that is not empty, \<^verbatim>\<open>ChooseSwapSurfaceFormat\<close> returns
  normally: the pair of \<^verbatim>\<open>VK_FORMAT_B8G8R8A8_UNORM\<close> and
  \<^verbatim>\<open>VK_COLOR_SPACE_SRGB_NONLINEAR_KHR\<close> when the list has it, the first entry of the
  list otherwise.
\<close>

theorem ChooseSwapSurfaceFormat_preferred_or_first:
  assumes "formats details \<noteq> []"
  shows "ChooseSwapSurfaceFormat details =
     Inr (if \<lparr> format = VK_FORMAT_B8G8R8A8_UNORM,
                colorSpace = VK_COLOR_SPACE_SRGB_NONLINEAR_KHR \<rparr> \<in> set (formats details)
          then \<lparr> format = VK_FORMAT_B8G8R8A8_UNORM,
                 colorSpace = VK_COLOR_SPACE_SRGB_NONLINEAR_KHR \<rparr>
          else formats details ! 0)"
proof (cases "ChooseSwapSurfaceFormat_loop (formats details)")
  case None
  then have "\<lparr> format = VK_FORMAT_B8G8R8A8_UNORM,
               colorSpace = VK_COLOR_SPACE_SRGB_NONLINEAR_KHR \<rparr> \<notin> set (formats details)"
    by (auto simp: ChooseSwapSurfaceFormat_loop_None)
  with None assms show ?thesis
    by (cases "formats details") (simp_all add: ChooseSwapSurfaceFormat_def)
next
  case (Some f)
  from ChooseSwapSurfaceFormat_loop_Some [OF Some]
  have "f \<in> set (formats details)"
    and "f = \<lparr> format = VK_FORMAT_B8G8R8A8_UNORM,
               colorSpace = VK_COLOR_SPACE_SRGB_NONLINEAR_KHR \<rparr>"
    by simp_all
  with Some show ?thesis
    by (simp add: ChooseSwapSurfaceFormat_def)
qed

text \<open>The theorem at a list whose second entry is the preferred pair, and at a list
  without it, whose first entry is returned.\<close>

theorem ChooseSwapSurfaceFormat_witness:
  "formats details_sentinel \<noteq> [] \<and>
   ChooseSwapSurfaceFormat details_sentinel =
     Inr \<lparr> format = VK_FORMAT_B8G8R8A8_UNORM, colorSpace = VK_COLOR_SPACE_SRGB_NONLINEAR_KHR \<rparr> \<and>
   formats details_small \<noteq> [] \<and>
   ChooseSwapSurfaceFormat details_small =
     Inr \<lparr> format = VK_FORMAT_other 37, colorSpace = VK_COLOR_SPACE_SRGB_NONLINEAR_KHR \<rparr>"
proof -
  have a: "formats details_sentinel \<noteq> []"
    by (simp add: details_sentinel_def)
  have b: "formats details_small \<noteq> []"
    by (simp add: details_small_def)
  from ChooseSwapSurfaceFormat_preferred_or_first [OF a]
    ChooseSwapSurfaceFormat_preferred_or_first [OF b] a b
  show ?thesis
    by (simp add: details_sentinel_def details_small_def)
qed

text \<open>
  C7. \<^verbatim>\<open>ChoosePresentMode\<close> returns the mailbox mode when the list of present modes
  has it, and FIFO otherwise, whether or not FIFO is in the list.
\<close>

theorem ChoosePresentMode_mailbox_or_fifo:
  "ChoosePresentMode details =
     (if VK_PRESENT_MODE_MAILBOX_KHR \<in> set (presentModes details)
      then VK_PRESENT_MODE_MAILBOX_KHR
      else VK_PRESENT_MODE_FIFO_KHR)"
  by (simp add: ChoosePresentMode_def ChoosePresentMode_loop_eq)

text \<open>The theorem at a list with mailbox after FIFO, and at a list that holds neither
  mailbox nor FIFO.\<close>

theorem ChoosePresentMode_witness:
  "ChoosePresentMode details_sentinel = VK_PRESENT_MODE_MAILBOX_KHR \<and>
   VK_PRESENT_MODE_FIFO_KHR \<notin> set (presentModes details_small) \<and>
   ChoosePresentMode details_small = VK_PRESENT_MODE_FIFO_KHR"
  using ChoosePresentMode_mailbox_or_fifo [of details_sentinel]
    ChoosePresentMode_mailbox_or_fifo [of details_small]
  by (simp add: details_sentinel_def details_small_def)

section \<open>Device selection\<close>

lemma PickPhysicalVulkanDevice_loop_find:
  "PickPhysicalVulkanDevice_loop inst pd ds =
     (case find (IsDiscreteGPU inst) ds of Some d \<Rightarrow> d | None \<Rightarrow> pd)"
  by (induction ds) auto

text \<open>
  C8. Let the enumerated device list be non-empty and hold no null handle (the API
  enumerates valid handles), and let the global \<^verbatim>\<open>physicalDevice\<close> be null at the
  call, as it is in \<^verbatim>\<open>main\<close>. Then the selection of lines 179 to 190 yields the
  device at the least index whose type is discrete GPU, and the device at index 0 when
  no device is discrete; and \<^verbatim>\<open>PickPhysicalVulkanDevice\<close> returns no other device.
\<close>

theorem select_physicalDevice_first_discrete_or_first:
  assumes "enumerated inst \<noteq> []"
    and "VK_NULL_HANDLE \<notin> set (enumerated inst)"
  shows "((\<exists>i. i < length (enumerated inst) \<and> IsDiscreteGPU inst (enumerated inst ! i) \<and>
             (\<forall>j. j < i \<longrightarrow> \<not> IsDiscreteGPU inst (enumerated inst ! j)) \<and>
             select_physicalDevice inst VK_NULL_HANDLE (enumerated inst) = enumerated inst ! i) \<or>
          ((\<forall>j. j < length (enumerated inst) \<longrightarrow> \<not> IsDiscreteGPU inst (enumerated inst ! j)) \<and>
             select_physicalDevice inst VK_NULL_HANDLE (enumerated inst) = enumerated inst ! 0)) \<and>
         (\<forall>d. PickPhysicalVulkanDevice inst VK_NULL_HANDLE = Inr d \<longrightarrow>
              d = select_physicalDevice inst VK_NULL_HANDLE (enumerated inst))"
proof (intro conjI allI impI)
  show "(\<exists>i. i < length (enumerated inst) \<and> IsDiscreteGPU inst (enumerated inst ! i) \<and>
             (\<forall>j. j < i \<longrightarrow> \<not> IsDiscreteGPU inst (enumerated inst ! j)) \<and>
             select_physicalDevice inst VK_NULL_HANDLE (enumerated inst) = enumerated inst ! i) \<or>
        ((\<forall>j. j < length (enumerated inst) \<longrightarrow> \<not> IsDiscreteGPU inst (enumerated inst ! j)) \<and>
             select_physicalDevice inst VK_NULL_HANDLE (enumerated inst) = enumerated inst ! 0)"
  proof (cases "find (IsDiscreteGPU inst) (enumerated inst)")
    case None
    then have none: "\<forall>j. j < length (enumerated inst) \<longrightarrow> \<not> IsDiscreteGPU inst (enumerated inst ! j)"
      by (simp add: find_None_iff)
    from None have "select_physicalDevice inst VK_NULL_HANDLE (enumerated inst) = enumerated inst ! 0"
      by (simp add: select_physicalDevice_def PickPhysicalVulkanDevice_loop_find)
    with none show ?thesis by blast
  next
    case (Some d)
    then obtain i where i: "i < length (enumerated inst)" "IsDiscreteGPU inst (enumerated inst ! i)"
      "d = enumerated inst ! i" "\<forall>j. j < i \<longrightarrow> \<not> IsDiscreteGPU inst (enumerated inst ! j)"
      by (auto simp: find_Some_iff)
    from i(1,3) have "d \<in> set (enumerated inst)" by simp
    with assms(2) have "d \<noteq> VK_NULL_HANDLE" by auto
    with Some have "select_physicalDevice inst VK_NULL_HANDLE (enumerated inst) = d"
      by (simp add: select_physicalDevice_def PickPhysicalVulkanDevice_loop_find)
    with i show ?thesis by blast
  qed
next
  fix d
  assume "PickPhysicalVulkanDevice inst VK_NULL_HANDLE = Inr d"
  then show "d = select_physicalDevice inst VK_NULL_HANDLE (enumerated inst)"
    by (auto simp: PickPhysicalVulkanDevice_def Let_def split: if_splits option.splits)
qed

text \<open>The theorem at two instances with the devices 7 and 9: when 9 is discrete it is
  chosen, and when neither is discrete the first one, 7, is.\<close>

theorem select_physicalDevice_witness:
  "enumerated (example_instance families_graphics_first) \<noteq> [] \<and>
   VK_NULL_HANDLE \<notin> set (enumerated (example_instance families_graphics_first)) \<and>
   IsDiscreteGPU (example_instance families_graphics_first) 9 \<and>
   \<not> IsDiscreteGPU (example_instance families_graphics_first) 7 \<and>
   PickPhysicalVulkanDevice (example_instance families_graphics_first) VK_NULL_HANDLE = Inr 9 \<and>
   enumerated integrated_instance \<noteq> [] \<and>
   VK_NULL_HANDLE \<notin> set (enumerated integrated_instance) \<and>
   \<not> IsDiscreteGPU integrated_instance 7 \<and>
   \<not> IsDiscreteGPU integrated_instance 9 \<and>
   PickPhysicalVulkanDevice integrated_instance VK_NULL_HANDLE = Inr 7"
proof -
  have a: "enumerated (example_instance families_graphics_first) \<noteq> []"
    and b: "VK_NULL_HANDLE \<notin> set (enumerated (example_instance families_graphics_first))"
    and c: "enumerated integrated_instance \<noteq> []"
    and d: "VK_NULL_HANDLE \<notin> set (enumerated integrated_instance)"
    by (simp_all add: example_instance_def integrated_instance_def VK_NULL_HANDLE_def)
  have e: "PickPhysicalVulkanDevice (example_instance families_graphics_first) VK_NULL_HANDLE = Inr 9"
    and f: "PickPhysicalVulkanDevice integrated_instance VK_NULL_HANDLE = Inr 7"
    by (simp_all add: PickPhysicalVulkanDevice_def select_physicalDevice_def Let_def
        example_instance_def integrated_instance_def IsDiscreteGPU_def VK_NULL_HANDLE_def
        requiredExtensions_def)
  from select_physicalDevice_first_discrete_or_first [OF a b]
    select_physicalDevice_first_discrete_or_first [OF c d] a b c d e f
  show ?thesis
    by (simp add: example_instance_def integrated_instance_def IsDiscreteGPU_def)
qed

section \<open>Queue families\<close>

lemma FindQueueFamilies_loop_graphics:
  "fs \<noteq> [] \<Longrightarrow>
     graphicsFamily (FindQueueFamilies_loop fs i indices) = i + length fs - 1 \<and>
     didSetGraphicsFamily (FindQueueFamilies_loop fs i indices)"
proof (induction fs arbitrary: i indices)
  case Nil
  then show ?case by simp
next
  case (Cons f fs)
  show ?case
  proof (cases fs)
    case Nil
    then show ?thesis by (simp add: Let_def)
  next
    case (Cons f' fs')
    with Cons.IH [of "Suc i"] show ?thesis by (simp add: Let_def)
  qed
qed

lemma FindQueueFamilies_loop_no_present:
  "\<forall>f \<in> set fs. \<not> surfaceSupported f \<Longrightarrow>
     presentFamily (FindQueueFamilies_loop fs i indices) = presentFamily indices \<and>
     didSetPresentFamily (FindQueueFamilies_loop fs i indices) = didSetPresentFamily indices"
  by (induction fs arbitrary: i indices) (simp_all add: Let_def)

lemma FindQueueFamilies_loop_present:
  "k < length fs \<Longrightarrow> surfaceSupported (fs ! k) \<Longrightarrow>
     \<forall>j. k < j \<and> j < length fs \<longrightarrow> \<not> surfaceSupported (fs ! j) \<Longrightarrow>
     presentFamily (FindQueueFamilies_loop fs i indices) = i + k \<and>
     didSetPresentFamily (FindQueueFamilies_loop fs i indices)"
proof (induction fs arbitrary: i indices k)
  case Nil
  then show ?case by simp
next
  case (Cons f fs)
  show ?case
  proof (cases k)
    case 0
    with Cons.prems have f: "surfaceSupported f"
      by simp
    have rest: "\<forall>g \<in> set fs. \<not> surfaceSupported g"
    proof
      fix g
      assume "g \<in> set fs"
      then obtain j where j: "j < length fs" "g = fs ! j"
        by (auto simp: in_set_conv_nth)
      with Cons.prems(3) 0 have "\<not> surfaceSupported ((f # fs) ! Suc j)"
        by (metis Suc_less_eq length_Cons zero_less_Suc)
      with j show "\<not> surfaceSupported g"
        by simp
    qed
    from FindQueueFamilies_loop_no_present [OF rest] f 0 show ?thesis
      by (simp add: Let_def)
  next
    case (Suc k')
    with Cons.prems have "k' < length fs" "surfaceSupported (fs ! k')"
      "\<forall>j. k' < j \<and> j < length fs \<longrightarrow> \<not> surfaceSupported (fs ! j)"
      by auto
    from Cons.IH [OF this, of "Suc i"] Suc show ?thesis
      by (simp add: Let_def)
  qed
qed

text \<open>What the scan records, for every list of families: the graphics family is the
  last index of the list whatever the families can do, and the present family is the
  last index that supports presentation.\<close>

lemma FindQueueFamilies_graphics_is_last_index:
  "families \<noteq> [] \<Longrightarrow>
     graphicsFamily (FindQueueFamilies families) = length families - 1 \<and>
     didSetGraphicsFamily (FindQueueFamilies families)"
  using FindQueueFamilies_loop_graphics [of families 0 zeroed_indices]
  by (simp add: FindQueueFamilies_def)

lemma FindQueueFamilies_present_is_last_supported:
  "k < length families \<Longrightarrow> surfaceSupported (families ! k) \<Longrightarrow>
     \<forall>j. k < j \<and> j < length families \<longrightarrow> \<not> surfaceSupported (families ! j) \<Longrightarrow>
     presentFamily (FindQueueFamilies families) = k \<and>
     didSetPresentFamily (FindQueueFamilies families)"
  using FindQueueFamilies_loop_present [of k families 0 zeroed_indices]
  by (auto simp: FindQueueFamilies_def)

lemma FindQueueFamilies_no_present:
  "\<forall>f \<in> set families. \<not> surfaceSupported f \<Longrightarrow>
     \<not> didSetPresentFamily (FindQueueFamilies families)"
  using FindQueueFamilies_loop_no_present [of families 0 zeroed_indices]
  by (simp add: FindQueueFamilies_def zeroed_indices_def)

lemma CreateLogicalDevice_no_present_is_fatal:
  "\<forall>f \<in> set (queueFamilies inst (physicalDevice g)). \<not> surfaceSupported f \<Longrightarrow>
     CreateLogicalDevice inst drv g = Inl Failed_to_find_graphics_queue_family \<or>
     CreateLogicalDevice inst drv g = Inl Failed_to_find_present_queue_family"
  using FindQueueFamilies_no_present [of "queueFamilies inst (physicalDevice g)"]
  by (simp add: CreateLogicalDevice_def Let_def)

text \<open>
  C1, at the families \<open>families_graphics_first\<close>: family 0 does graphics and
  presents, family 1 does neither. The last family that exposes graphics is family 0,
  and the scan records family 1 as the graphics family. (The present family it records
  is family 0, the last one that supports presentation.)
\<close>

theorem FindQueueFamilies_records_last_family_as_graphics:
  "supportsGraphics (families_graphics_first ! 0) \<and>
   \<not> supportsGraphics (families_graphics_first ! 1) \<and>
   length families_graphics_first = 2 \<and>
   didSetGraphicsFamily (FindQueueFamilies families_graphics_first) \<and>
   graphicsFamily (FindQueueFamilies families_graphics_first) = 1 \<and>
   didSetPresentFamily (FindQueueFamilies families_graphics_first) \<and>
   presentFamily (FindQueueFamilies families_graphics_first) = 0"
  by (simp add: families_graphics_first_def FindQueueFamilies_def zeroed_indices_def Let_def)

text \<open>
  C2, at the one family of \<open>families_no_graphics\<close>, which presents and does no
  graphics: no family supports graphics, and \<^verbatim>\<open>CreateLogicalDevice\<close> does not end the
  process; it goes on with family 0 as the graphics family.
\<close>

theorem CreateLogicalDevice_no_graphics_family_not_fatal:
  "length families_no_graphics = 1 \<and>
   \<not> supportsGraphics (families_no_graphics ! 0) \<and>
   queueFamilies (example_instance families_no_graphics) 9 = families_no_graphics \<and>
   (case CreateLogicalDevice (example_instance families_no_graphics) accepting_driver
           (initial_globals \<lparr> physicalDevice := 9 \<rparr>) of
      Inl e \<Rightarrow> False
    | Inr (drv, g) \<Rightarrow>
        didSetGraphicsFamily (queueFamilyIndices g) \<and>
        graphicsFamily (queueFamilyIndices g) = 0 \<and>
        logicalDevice g \<noteq> VK_NULL_HANDLE)"
  by (simp add: families_no_graphics_def example_instance_def accepting_driver_def
      CreateLogicalDevice_def FindQueueFamilies_def zeroed_indices_def Let_def
      initial_globals_def vkCreateDevice_def vk_create_def vk_call_def VK_NULL_HANDLE_def)

section \<open>Sharing mode and queue-create entries\<close>

text \<open>What the two create-infos hold, for every pair of recorded indices. With equal
  indices: exclusive sharing, and one queue-create entry. With different indices:
  concurrent sharing with count 2, and two queue-create entries; the pointer to the two
  indices is the address of the array of line 395, whose lifetime has ended.\<close>

lemma create_infos_of_indices:
  "(graphicsFamily indices = presentFamily indices \<longrightarrow>
      sc_imageSharingMode (swapchainCreateInfo details indices surfaceFormat presentMode extent)
        = VK_SHARING_MODE_EXCLUSIVE \<and>
      sc_queueFamilyIndexCount (swapchainCreateInfo details indices surfaceFormat presentMode extent)
        = 0 \<and>
      sc_pQueueFamilyIndices (swapchainCreateInfo details indices surfaceFormat presentMode extent)
        = Pointer_NULL \<and>
      queueCreateInfoCount (deviceCreateInfo indices) = 1 \<and>
      queueCreateEntries (deviceCreateInfo indices)
        = [\<lparr> queueFamilyIndex = graphicsFamily indices, queueCount = 1 \<rparr>]) \<and>
   (graphicsFamily indices \<noteq> presentFamily indices \<longrightarrow>
      sc_imageSharingMode (swapchainCreateInfo details indices surfaceFormat presentMode extent)
        = VK_SHARING_MODE_CONCURRENT \<and>
      sc_queueFamilyIndexCount (swapchainCreateInfo details indices surfaceFormat presentMode extent)
        = 2 \<and>
      sc_pQueueFamilyIndices (swapchainCreateInfo details indices surfaceFormat presentMode extent)
        = Pointer_to_dead_array [graphicsFamily indices, presentFamily indices] \<and>
      queueCreateInfoCount (deviceCreateInfo indices) = 2 \<and>
      queueCreateEntries (deviceCreateInfo indices)
        = [\<lparr> queueFamilyIndex = graphicsFamily indices, queueCount = 1 \<rparr>,
           \<lparr> queueFamilyIndex = presentFamily indices, queueCount = 1 \<rparr>])"
  by (simp add: swapchainCreateInfo_def leave_block_def deviceCreateInfo_def
      queueCreateEntries_def Let_def)

text \<open>
  C5, at the indices that \<^verbatim>\<open>FindQueueFamilies\<close> records for
  \<open>families_graphics_first\<close>: graphics family 1, present family 0. The two differ;
  device creation uses two queue-create entries and the swapchain create-info has
  concurrent sharing mode with count 2; but the create-info that
  \<^verbatim>\<open>vkCreateSwapchainKHR\<close> receives does not list the two family indices in a live
  array: its pointer is the address of the array of line 395, dead since line 399.
\<close>

theorem CreateSwapChain_passes_dead_indices_array:
  "graphicsFamily (FindQueueFamilies families_graphics_first) = 1 \<and>
   presentFamily (FindQueueFamilies families_graphics_first) = 0 \<and>
   queueCreateEntries (deviceCreateInfo (FindQueueFamilies families_graphics_first))
     = [\<lparr> queueFamilyIndex = 1, queueCount = 1 \<rparr>, \<lparr> queueFamilyIndex = 0, queueCount = 1 \<rparr>] \<and>
   (case CreateSwapChain details_sentinel accepting_driver
           (initial_globals \<lparr> queueFamilyIndices := FindQueueFamilies families_graphics_first \<rparr>) of
      Inl e \<Rightarrow> False
    | Inr (drv, g) \<Rightarrow>
        (case swapchainInfos drv (swapChain g) of
           None \<Rightarrow> False
         | Some createInfo \<Rightarrow>
             sc_imageSharingMode createInfo = VK_SHARING_MODE_CONCURRENT \<and>
             sc_queueFamilyIndexCount createInfo = 2 \<and>
             sc_pQueueFamilyIndices createInfo = Pointer_to_dead_array [1, 0] \<and>
             sc_pQueueFamilyIndices createInfo \<noteq> Pointer_to_live_array [1, 0]))"
proof -
  have differ: "FindQueueFamilies families_graphics_first =
      \<lparr> graphicsFamily = 1, didSetGraphicsFamily = True,
        presentFamily = 0, didSetPresentFamily = True \<rparr>"
    by (simp add: families_graphics_first_def FindQueueFamilies_def zeroed_indices_def Let_def)
  show ?thesis
    by (simp add: differ deviceCreateInfo_def queueCreateEntries_def
        CreateSwapChain_def ChooseSwapSurfaceFormat_def details_sentinel_def
        accepting_driver_def initial_globals_def swapchainCreateInfo_def leave_block_def
        vkCreateSwapchainKHR_def vk_create_def vk_call_def Let_def)
qed

section \<open>The creating calls\<close>

lemma vk_create_eq:
  "vk_create drv =
     (if rejects drv (fresh drv) then (None, drv \<lparr> fresh := Suc (fresh drv) \<rparr>)
      else (Some (Suc (fresh drv)), drv \<lparr> fresh := Suc (fresh drv) \<rparr>))"
  by (cases "rejects drv (fresh drv)") (simp_all add: vk_create_def vk_call_def)

lemma vkBeginCommandBuffer_eq:
  "vkBeginCommandBuffer drv cb =
     (if rejects drv (fresh drv) then (False, drv \<lparr> fresh := Suc (fresh drv) \<rparr>)
      else (True, drv \<lparr> fresh := Suc (fresh drv), recorded := (recorded drv)(cb \<mapsto> []) \<rparr>))"
  by (cases "rejects drv (fresh drv)") (simp_all add: vkBeginCommandBuffer_def vk_call_def)

lemma vkAllocateCommandBuffers_eq:
  "vkAllocateCommandBuffers drv n =
     (if rejects drv (fresh drv) then (None, drv \<lparr> fresh := Suc (fresh drv) \<rparr>)
      else (Some [Suc (Suc (fresh drv)) ..< Suc (Suc (fresh drv) + n)],
            drv \<lparr> fresh := Suc (fresh drv) + n \<rparr>))"
  by (cases "rejects drv (fresh drv)") (simp_all add: vkAllocateCommandBuffers_def vk_call_def)

lemma vk_create_Some:
  "vk_create drv = (Some h, drv') \<longleftrightarrow>
     \<not> rejects drv (fresh drv) \<and> h = Suc (fresh drv) \<and> drv' = drv \<lparr> fresh := Suc (fresh drv) \<rparr>"
  by (auto simp: vk_create_eq)

lemma vkCreateImageView_Some:
  "vkCreateImageView drv info = (Some h, drv') \<longleftrightarrow>
     \<not> rejects drv (fresh drv) \<and> h = Suc (fresh drv) \<and>
     drv' = drv \<lparr> fresh := Suc (fresh drv),
                   imageViewInfos := (imageViewInfos drv)(Suc (fresh drv) \<mapsto> info) \<rparr>"
  by (auto simp: vkCreateImageView_def vk_create_eq)

lemma vkCreateFramebuffer_Some:
  "vkCreateFramebuffer drv info = (Some h, drv') \<longleftrightarrow>
     \<not> rejects drv (fresh drv) \<and> h = Suc (fresh drv) \<and>
     drv' = drv \<lparr> fresh := Suc (fresh drv),
                   framebufferInfos := (framebufferInfos drv)(Suc (fresh drv) \<mapsto> info) \<rparr>"
  by (auto simp: vkCreateFramebuffer_def vk_create_eq)

text \<open>The commands of one buffer after the body of the recording loop.\<close>

lemma record_commands_recorded:
  "recorded drv (commandBuffers g ! i) = Some [] \<Longrightarrow>
     record_commands drv g i =
       drv \<lparr> recorded := (recorded drv)
               (commandBuffers g ! i \<mapsto>
                  [CmdBeginRenderPass (renderPassBeginInfo g i),
                   CmdBindPipeline (graphicsPipeline g),
                   CmdDraw 3 1 0 0,
                   CmdEndRenderPass]) \<rparr>"
  by (simp add: record_commands_def vkCmd_def Let_def)

section \<open>The loops, one iteration at a time\<close>

text \<open>The defining equations of the loops are unfolded by hand, one iteration at a
  time, and not by the simplifier.\<close>

declare CreateImageViews_loop.simps [simp del]
declare CreateFramebuffers_loop.simps [simp del]
declare CreateCommandBuffers_loop.simps [simp del]

lemma CreateImageViews_loop_Inr:
  "CreateImageViews_loop i drv g = Inr (drv', g') \<longleftrightarrow>
     (if i < swapchainImageCount g
      then i < length (swapchainImages g) \<and> \<not> rejects drv (fresh drv) \<and>
           CreateImageViews_loop (Suc i)
             (drv \<lparr> fresh := Suc (fresh drv),
                    imageViewInfos := (imageViewInfos drv)
                      (Suc (fresh drv) \<mapsto>
                         \<lparr> iv_image = swapchainImages g ! i,
                           iv_format = swapchainImageFormat g,
                           iv_levelCount = 1, iv_layerCount = 1 \<rparr>) \<rparr>)
             (g \<lparr> swapChainImageViews := (swapChainImageViews g)[i := Suc (fresh drv)] \<rparr>)
             = Inr (drv', g')
      else drv' = drv \<and> g' = g)"
proof (cases "i < swapchainImageCount g")
  case False
  then show ?thesis
    by (subst CreateImageViews_loop.simps) auto
next
  case True
  show ?thesis
  proof (cases "vkCreateImageView drv
                   \<lparr> iv_image = swapchainImages g ! i,
                     iv_format = swapchainImageFormat g,
                     iv_levelCount = 1, iv_layerCount = 1 \<rparr>")
    case (Pair r d)
    show ?thesis
    proof (cases r)
      case None
      with Pair have "rejects drv (fresh drv)"
        by (auto simp: vkCreateImageView_def vk_create_eq split: if_splits)
      with True Pair None show ?thesis
        by (subst CreateImageViews_loop.simps) auto
    next
      case (Some h)
      with Pair have "vkCreateImageView drv
                   \<lparr> iv_image = swapchainImages g ! i,
                     iv_format = swapchainImageFormat g,
                     iv_levelCount = 1, iv_layerCount = 1 \<rparr> = (Some h, d)"
        by simp
      note c = this this [unfolded vkCreateImageView_Some]
      with True show ?thesis
        by (subst CreateImageViews_loop.simps) simp
    qed
  qed
qed

lemma CreateFramebuffers_loop_Inr:
  "CreateFramebuffers_loop i drv g = Inr (drv', g') \<longleftrightarrow>
     (if i < swapchainImageCount g
      then i < length (swapChainImageViews g) \<and> \<not> rejects drv (fresh drv) \<and>
           CreateFramebuffers_loop (Suc i)
             (drv \<lparr> fresh := Suc (fresh drv),
                    framebufferInfos := (framebufferInfos drv)
                      (Suc (fresh drv) \<mapsto>
                         \<lparr> fb_renderPass = renderPass g,
                           fb_attachments = [swapChainImageViews g ! i],
                           fb_width = width (swapchainExtent g),
                           fb_height = height (swapchainExtent g),
                           fb_layers = 1 \<rparr>) \<rparr>)
             (g \<lparr> swapchainFramebuffers := (swapchainFramebuffers g)[i := Suc (fresh drv)] \<rparr>)
             = Inr (drv', g')
      else drv' = drv \<and> g' = g)"
proof (cases "i < swapchainImageCount g")
  case False
  then show ?thesis
    by (subst CreateFramebuffers_loop.simps) auto
next
  case True
  show ?thesis
  proof (cases "vkCreateFramebuffer drv
                   \<lparr> fb_renderPass = renderPass g,
                     fb_attachments = [swapChainImageViews g ! i],
                     fb_width = width (swapchainExtent g),
                     fb_height = height (swapchainExtent g),
                     fb_layers = 1 \<rparr>")
    case (Pair r d)
    show ?thesis
    proof (cases r)
      case None
      with Pair have "rejects drv (fresh drv)"
        by (auto simp: vkCreateFramebuffer_def vk_create_eq split: if_splits)
      with True Pair None show ?thesis
        by (subst CreateFramebuffers_loop.simps) auto
    next
      case (Some h)
      with Pair have "vkCreateFramebuffer drv
                   \<lparr> fb_renderPass = renderPass g,
                     fb_attachments = [swapChainImageViews g ! i],
                     fb_width = width (swapchainExtent g),
                     fb_height = height (swapchainExtent g),
                     fb_layers = 1 \<rparr> = (Some h, d)"
        by simp
      note c = this this [unfolded vkCreateFramebuffer_Some]
      with True show ?thesis
        by (subst CreateFramebuffers_loop.simps) simp
    qed
  qed
qed

lemma CreateCommandBuffers_loop_Inr:
  "CreateCommandBuffers_loop i drv g = Inr (drv', g') \<longleftrightarrow>
     (if i < swapchainImageCount g
      then i < length (commandBuffers g) \<and> i < length (swapchainFramebuffers g) \<and>
           \<not> rejects drv (fresh drv) \<and> \<not> rejects drv (Suc (fresh drv)) \<and>
           CreateCommandBuffers_loop (Suc i)
             (drv \<lparr> fresh := Suc (Suc (fresh drv)),
                    recorded := (recorded drv)
                      (commandBuffers g ! i \<mapsto>
                         [CmdBeginRenderPass (renderPassBeginInfo g i),
                          CmdBindPipeline (graphicsPipeline g),
                          CmdDraw 3 1 0 0,
                          CmdEndRenderPass]) \<rparr>)
             g = Inr (drv', g')
      else drv' = drv \<and> g' = g)"
proof (cases "i < swapchainImageCount g")
  case False
  then show ?thesis
    by (subst CreateCommandBuffers_loop.simps) auto
next
  case True
  show ?thesis
  proof (cases "rejects drv (fresh drv)")
    case rej: True
    with True show ?thesis
      by (subst CreateCommandBuffers_loop.simps)
        (simp add: vkBeginCommandBuffer_eq)
  next
    case acc: False
    let ?d1 = "drv \<lparr> fresh := Suc (fresh drv),
                      recorded := (recorded drv)(commandBuffers g ! i \<mapsto> []) \<rparr>"
    have b: "vkBeginCommandBuffer drv (commandBuffers g ! i) = (True, ?d1)"
      using acc by (simp add: vkBeginCommandBuffer_eq)
    have r: "record_commands ?d1 g i =
        drv \<lparr> fresh := Suc (fresh drv),
               recorded := (recorded drv)
                 (commandBuffers g ! i \<mapsto>
                    [CmdBeginRenderPass (renderPassBeginInfo g i),
                     CmdBindPipeline (graphicsPipeline g),
                     CmdDraw 3 1 0 0,
                     CmdEndRenderPass]) \<rparr>"
      by (subst record_commands_recorded) simp_all
    show ?thesis
    proof (cases "rejects drv (Suc (fresh drv))")
      case rej: True
      with True acc show ?thesis
        by (subst CreateCommandBuffers_loop.simps)
          (simp add: b r vkEndCommandBuffer_def vk_call_def)
    next
      case acc2: False
      have e: "vkEndCommandBuffer (record_commands ?d1 g i) (commandBuffers g ! i) =
          (True,
           drv \<lparr> fresh := Suc (Suc (fresh drv)),
                  recorded := (recorded drv)
                    (commandBuffers g ! i \<mapsto>
                       [CmdBeginRenderPass (renderPassBeginInfo g i),
                        CmdBindPipeline (graphicsPipeline g),
                        CmdDraw 3 1 0 0,
                        CmdEndRenderPass]) \<rparr>)"
        using acc2 by (simp add: r vkEndCommandBuffer_def vk_call_def)
      from True acc acc2 show ?thesis
        by (subst CreateCommandBuffers_loop.simps)
          (auto simp add: b e)
    qed
  qed
qed

section \<open>What the loops leave behind\<close>

text \<open>Each loop changes its own array and its own store only.\<close>

lemma CreateImageViews_loop_frame:
  "CreateImageViews_loop i drv g = Inr (drv', g') \<Longrightarrow>
     \<exists>vs f m. g' = g \<lparr> swapChainImageViews := vs \<rparr> \<and>
              drv' = drv \<lparr> fresh := f, imageViewInfos := m \<rparr>"
proof (induction "swapchainImageCount g - i" arbitrary: i drv g)
  case 0
  then have "drv' = drv" "g' = g"
    by (simp_all add: CreateImageViews_loop_Inr)
  then have "g' = g \<lparr> swapChainImageViews := swapChainImageViews g \<rparr>"
    and "drv' = drv \<lparr> fresh := fresh drv, imageViewInfos := imageViewInfos drv \<rparr>"
    by simp_all
  then show ?case by blast
next
  case (Suc n)
  let ?drv1 = "drv \<lparr> fresh := Suc (fresh drv),
                     imageViewInfos := (imageViewInfos drv)
                       (Suc (fresh drv) \<mapsto>
                          \<lparr> iv_image = swapchainImages g ! i,
                            iv_format = swapchainImageFormat g,
                            iv_levelCount = 1, iv_layerCount = 1 \<rparr>) \<rparr>"
  let ?g1 = "g \<lparr> swapChainImageViews := (swapChainImageViews g)[i := Suc (fresh drv)] \<rparr>"
  from Suc.hyps(2) have lt: "i < swapchainImageCount g" by simp
  with Suc.prems have rec: "CreateImageViews_loop (Suc i) ?drv1 ?g1 = Inr (drv', g')"
    by (simp add: CreateImageViews_loop_Inr [of i])
  from Suc.hyps(2) have "n = swapchainImageCount ?g1 - Suc i" by simp
  from Suc.hyps(1) [OF this rec]
  obtain vs f m where "g' = ?g1 \<lparr> swapChainImageViews := vs \<rparr>"
    and "drv' = ?drv1 \<lparr> fresh := f, imageViewInfos := m \<rparr>"
    by blast
  then have "g' = g \<lparr> swapChainImageViews := vs \<rparr>"
    and "drv' = drv \<lparr> fresh := f, imageViewInfos := m \<rparr>"
    by simp_all
  then show ?case by blast
qed

lemma CreateImageViews_loop_content:
  "CreateImageViews_loop i drv g = Inr (drv', g') \<Longrightarrow>
   length (swapChainImageViews g) = swapchainImageCount g \<Longrightarrow>
     length (swapChainImageViews g') = swapchainImageCount g \<and>
     (\<forall>j. j < i \<longrightarrow> swapChainImageViews g' ! j = swapChainImageViews g ! j) \<and>
     (\<forall>h. h \<le> fresh drv \<longrightarrow> imageViewInfos drv' h = imageViewInfos drv h) \<and>
     (\<forall>k. i + k < swapchainImageCount g \<longrightarrow>
          swapChainImageViews g' ! (i + k) = Suc (fresh drv + k)) \<and>
     (\<forall>k. i + k < swapchainImageCount g \<longrightarrow>
          imageViewInfos drv' (Suc (fresh drv + k)) =
            Some \<lparr> iv_image = swapchainImages g ! (i + k),
                   iv_format = swapchainImageFormat g,
                   iv_levelCount = 1, iv_layerCount = 1 \<rparr>)"
proof (induction "swapchainImageCount g - i" arbitrary: i drv g)
  case 0
  from 0(1) have ge: "swapchainImageCount g \<le> i" by simp
  with 0(2) have "drv' = drv" "g' = g"
    by (simp_all add: CreateImageViews_loop_Inr)
  with ge 0(3) show ?case by auto
next
  case (Suc n)
  let ?info = "\<lambda>j. \<lparr> iv_image = swapchainImages g ! j,
                      iv_format = swapchainImageFormat g,
                      iv_levelCount = 1, iv_layerCount = 1 \<rparr>"
  let ?drv1 = "drv \<lparr> fresh := Suc (fresh drv),
                     imageViewInfos := (imageViewInfos drv)(Suc (fresh drv) \<mapsto> ?info i) \<rparr>"
  let ?g1 = "g \<lparr> swapChainImageViews := (swapChainImageViews g)[i := Suc (fresh drv)] \<rparr>"
  from Suc.hyps(2) have lt: "i < swapchainImageCount g" by simp
  with Suc.prems have rec: "CreateImageViews_loop (Suc i) ?drv1 ?g1 = Inr (drv', g')"
    by (simp add: CreateImageViews_loop_Inr [of i])
  from Suc.hyps(2) have n: "n = swapchainImageCount ?g1 - Suc i" by simp
  from Suc.prems(2) have len: "length (swapChainImageViews ?g1) = swapchainImageCount ?g1"
    by simp
  note ih = Suc.hyps(1) [OF n rec len]
  from ih have len': "length (swapChainImageViews g') = swapchainImageCount ?g1"
    and before: "\<forall>j. j < Suc i \<longrightarrow> swapChainImageViews g' ! j = swapChainImageViews ?g1 ! j"
    and store: "\<forall>h. h \<le> fresh ?drv1 \<longrightarrow> imageViewInfos drv' h = imageViewInfos ?drv1 h"
    and later: "\<forall>k. Suc i + k < swapchainImageCount ?g1 \<longrightarrow>
      swapChainImageViews g' ! (Suc i + k) = Suc (fresh ?drv1 + k)"
    and later_store: "\<forall>k. Suc i + k < swapchainImageCount ?g1 \<longrightarrow>
      imageViewInfos drv' (Suc (fresh ?drv1 + k)) =
         Some \<lparr> iv_image = swapchainImages ?g1 ! (Suc i + k),
                iv_format = swapchainImageFormat ?g1,
                iv_levelCount = 1, iv_layerCount = 1 \<rparr>"
    by blast+
  have a: "length (swapChainImageViews g') = swapchainImageCount g"
    using len' by simp
  have b: "\<forall>j. j < i \<longrightarrow> swapChainImageViews g' ! j = swapChainImageViews g ! j"
    using before by simp
  have c: "\<forall>h. h \<le> fresh drv \<longrightarrow> imageViewInfos drv' h = imageViewInfos drv h"
    using store by simp
  have d: "\<forall>k. i + k < swapchainImageCount g \<longrightarrow>
          swapChainImageViews g' ! (i + k) = Suc (fresh drv + k)"
  proof (intro allI impI)
    fix k
    assume k: "i + k < swapchainImageCount g"
    show "swapChainImageViews g' ! (i + k) = Suc (fresh drv + k)"
    proof (cases k)
      case 0
      from before have "swapChainImageViews g' ! i = swapChainImageViews ?g1 ! i"
        by simp
      with 0 lt Suc.prems(2) show ?thesis by simp
    next
      case (Suc k')
      with later k show ?thesis by simp
    qed
  qed
  have e: "\<forall>k. i + k < swapchainImageCount g \<longrightarrow>
          imageViewInfos drv' (Suc (fresh drv + k)) = Some (?info (i + k))"
  proof (intro allI impI)
    fix k
    assume k: "i + k < swapchainImageCount g"
    show "imageViewInfos drv' (Suc (fresh drv + k)) = Some (?info (i + k))"
    proof (cases k)
      case 0
      from store have "imageViewInfos drv' (Suc (fresh drv)) = imageViewInfos ?drv1 (Suc (fresh drv))"
        by simp
      with 0 show ?thesis by simp
    next
      case (Suc k')
      with later_store k show ?thesis by simp
    qed
  qed
  from a b c d e show ?case by blast
qed

lemma CreateFramebuffers_loop_frame:
  "CreateFramebuffers_loop i drv g = Inr (drv', g') \<Longrightarrow>
     \<exists>vs f m. g' = g \<lparr> swapchainFramebuffers := vs \<rparr> \<and>
              drv' = drv \<lparr> fresh := f, framebufferInfos := m \<rparr>"
proof (induction "swapchainImageCount g - i" arbitrary: i drv g)
  case 0
  then have "drv' = drv" "g' = g"
    by (simp_all add: CreateFramebuffers_loop_Inr)
  then have "g' = g \<lparr> swapchainFramebuffers := swapchainFramebuffers g \<rparr>"
    and "drv' = drv \<lparr> fresh := fresh drv, framebufferInfos := framebufferInfos drv \<rparr>"
    by simp_all
  then show ?case by blast
next
  case (Suc n)
  let ?drv1 = "drv \<lparr> fresh := Suc (fresh drv),
                     framebufferInfos := (framebufferInfos drv)
                       (Suc (fresh drv) \<mapsto>
                          \<lparr> fb_renderPass = renderPass g,
                            fb_attachments = [swapChainImageViews g ! i],
                            fb_width = width (swapchainExtent g),
                            fb_height = height (swapchainExtent g),
                            fb_layers = 1 \<rparr>) \<rparr>"
  let ?g1 = "g \<lparr> swapchainFramebuffers := (swapchainFramebuffers g)[i := Suc (fresh drv)] \<rparr>"
  from Suc.hyps(2) have lt: "i < swapchainImageCount g" by simp
  with Suc.prems have rec: "CreateFramebuffers_loop (Suc i) ?drv1 ?g1 = Inr (drv', g')"
    by (simp add: CreateFramebuffers_loop_Inr [of i])
  from Suc.hyps(2) have "n = swapchainImageCount ?g1 - Suc i" by simp
  from Suc.hyps(1) [OF this rec]
  obtain vs f m where "g' = ?g1 \<lparr> swapchainFramebuffers := vs \<rparr>"
    and "drv' = ?drv1 \<lparr> fresh := f, framebufferInfos := m \<rparr>"
    by blast
  then have "g' = g \<lparr> swapchainFramebuffers := vs \<rparr>"
    and "drv' = drv \<lparr> fresh := f, framebufferInfos := m \<rparr>"
    by simp_all
  then show ?case by blast
qed

lemma CreateFramebuffers_loop_content:
  "CreateFramebuffers_loop i drv g = Inr (drv', g') \<Longrightarrow>
   length (swapchainFramebuffers g) = swapchainImageCount g \<Longrightarrow>
     length (swapchainFramebuffers g') = swapchainImageCount g \<and>
     (\<forall>j. j < i \<longrightarrow> swapchainFramebuffers g' ! j = swapchainFramebuffers g ! j) \<and>
     (\<forall>h. h \<le> fresh drv \<longrightarrow> framebufferInfos drv' h = framebufferInfos drv h) \<and>
     (\<forall>k. i + k < swapchainImageCount g \<longrightarrow>
          swapchainFramebuffers g' ! (i + k) = Suc (fresh drv + k)) \<and>
     (\<forall>k. i + k < swapchainImageCount g \<longrightarrow>
          framebufferInfos drv' (Suc (fresh drv + k)) =
            Some \<lparr> fb_renderPass = renderPass g,
                   fb_attachments = [swapChainImageViews g ! (i + k)],
                   fb_width = width (swapchainExtent g),
                   fb_height = height (swapchainExtent g),
                   fb_layers = 1 \<rparr>)"
proof (induction "swapchainImageCount g - i" arbitrary: i drv g)
  case 0
  from 0(1) have ge: "swapchainImageCount g \<le> i" by simp
  with 0(2) have "drv' = drv" "g' = g"
    by (simp_all add: CreateFramebuffers_loop_Inr)
  with ge 0(3) show ?case by auto
next
  case (Suc n)
  let ?info = "\<lambda>j. \<lparr> fb_renderPass = renderPass g,
                      fb_attachments = [swapChainImageViews g ! j],
                      fb_width = width (swapchainExtent g),
                      fb_height = height (swapchainExtent g),
                      fb_layers = 1 \<rparr>"
  let ?drv1 = "drv \<lparr> fresh := Suc (fresh drv),
                     framebufferInfos := (framebufferInfos drv)(Suc (fresh drv) \<mapsto> ?info i) \<rparr>"
  let ?g1 = "g \<lparr> swapchainFramebuffers := (swapchainFramebuffers g)[i := Suc (fresh drv)] \<rparr>"
  from Suc.hyps(2) have lt: "i < swapchainImageCount g" by simp
  with Suc.prems have rec: "CreateFramebuffers_loop (Suc i) ?drv1 ?g1 = Inr (drv', g')"
    by (simp add: CreateFramebuffers_loop_Inr [of i])
  from Suc.hyps(2) have n: "n = swapchainImageCount ?g1 - Suc i" by simp
  from Suc.prems(2) have len: "length (swapchainFramebuffers ?g1) = swapchainImageCount ?g1"
    by simp
  note ih = Suc.hyps(1) [OF n rec len]
  from ih have len': "length (swapchainFramebuffers g') = swapchainImageCount ?g1"
    and before: "\<forall>j. j < Suc i \<longrightarrow> swapchainFramebuffers g' ! j = swapchainFramebuffers ?g1 ! j"
    and store: "\<forall>h. h \<le> fresh ?drv1 \<longrightarrow> framebufferInfos drv' h = framebufferInfos ?drv1 h"
    and later: "\<forall>k. Suc i + k < swapchainImageCount ?g1 \<longrightarrow>
      swapchainFramebuffers g' ! (Suc i + k) = Suc (fresh ?drv1 + k)"
    and later_store: "\<forall>k. Suc i + k < swapchainImageCount ?g1 \<longrightarrow>
      framebufferInfos drv' (Suc (fresh ?drv1 + k)) =
         Some \<lparr> fb_renderPass = renderPass ?g1,
                fb_attachments = [swapChainImageViews ?g1 ! (Suc i + k)],
                fb_width = width (swapchainExtent ?g1),
                fb_height = height (swapchainExtent ?g1),
                fb_layers = 1 \<rparr>"
    by blast+
  have a: "length (swapchainFramebuffers g') = swapchainImageCount g"
    using len' by simp
  have b: "\<forall>j. j < i \<longrightarrow> swapchainFramebuffers g' ! j = swapchainFramebuffers g ! j"
    using before by simp
  have c: "\<forall>h. h \<le> fresh drv \<longrightarrow> framebufferInfos drv' h = framebufferInfos drv h"
    using store by simp
  have d: "\<forall>k. i + k < swapchainImageCount g \<longrightarrow>
          swapchainFramebuffers g' ! (i + k) = Suc (fresh drv + k)"
  proof (intro allI impI)
    fix k
    assume k: "i + k < swapchainImageCount g"
    show "swapchainFramebuffers g' ! (i + k) = Suc (fresh drv + k)"
    proof (cases k)
      case 0
      from before have "swapchainFramebuffers g' ! i = swapchainFramebuffers ?g1 ! i"
        by simp
      with 0 lt Suc.prems(2) show ?thesis by simp
    next
      case (Suc k')
      with later k show ?thesis by simp
    qed
  qed
  have e: "\<forall>k. i + k < swapchainImageCount g \<longrightarrow>
          framebufferInfos drv' (Suc (fresh drv + k)) = Some (?info (i + k))"
  proof (intro allI impI)
    fix k
    assume k: "i + k < swapchainImageCount g"
    show "framebufferInfos drv' (Suc (fresh drv + k)) = Some (?info (i + k))"
    proof (cases k)
      case 0
      from store have "framebufferInfos drv' (Suc (fresh drv)) = framebufferInfos ?drv1 (Suc (fresh drv))"
        by simp
      with 0 show ?thesis by simp
    next
      case (Suc k')
      with later_store k show ?thesis by simp
    qed
  qed
  from a b c d e show ?case by blast
qed

lemma CreateCommandBuffers_loop_content:
  "CreateCommandBuffers_loop i drv g = Inr (drv', g') \<Longrightarrow>
   distinct (commandBuffers g) \<Longrightarrow>
   length (commandBuffers g) = swapchainImageCount g \<Longrightarrow>
     g' = g \<and>
     (\<exists>f m. drv' = drv \<lparr> fresh := f, recorded := m \<rparr>) \<and>
     (\<forall>h. (\<forall>j. i \<le> j \<and> j < swapchainImageCount g \<longrightarrow> commandBuffers g ! j \<noteq> h) \<longrightarrow>
          recorded drv' h = recorded drv h) \<and>
     (\<forall>j. i \<le> j \<and> j < swapchainImageCount g \<longrightarrow>
          recorded drv' (commandBuffers g ! j) =
            Some [CmdBeginRenderPass (renderPassBeginInfo g j),
                  CmdBindPipeline (graphicsPipeline g),
                  CmdDraw 3 1 0 0,
                  CmdEndRenderPass])"
proof (induction "swapchainImageCount g - i" arbitrary: i drv)
  case 0
  from 0(1) have ge: "swapchainImageCount g \<le> i" by simp
  with 0(2) have eq: "drv' = drv" "g' = g"
    by (simp_all add: CreateCommandBuffers_loop_Inr)
  then have "drv' = drv \<lparr> fresh := fresh drv, recorded := recorded drv \<rparr>"
    by simp
  then have "\<exists>f m. drv' = drv \<lparr> fresh := f, recorded := m \<rparr>"
    by blast
  with eq ge show ?case by auto
next
  case (Suc n)
  let ?cmds = "\<lambda>j. [CmdBeginRenderPass (renderPassBeginInfo g j),
                     CmdBindPipeline (graphicsPipeline g),
                     CmdDraw 3 1 0 0,
                     CmdEndRenderPass]"
  let ?drv1 = "drv \<lparr> fresh := Suc (Suc (fresh drv)),
                     recorded := (recorded drv)(commandBuffers g ! i \<mapsto> ?cmds i) \<rparr>"
  from Suc.hyps(2) have lt: "i < swapchainImageCount g" by simp
  with Suc.prems(1) have rec: "CreateCommandBuffers_loop (Suc i) ?drv1 g = Inr (drv', g')"
    by (simp add: CreateCommandBuffers_loop_Inr [of i])
  from Suc.hyps(2) have n: "n = swapchainImageCount g - Suc i" by simp
  note ih = Suc.hyps(1) [OF n rec Suc.prems(2) Suc.prems(3)]
  from ih have same: "g' = g"
    and ex: "\<exists>f m. drv' = ?drv1 \<lparr> fresh := f, recorded := m \<rparr>"
    and frame: "\<forall>h. (\<forall>j. Suc i \<le> j \<and> j < swapchainImageCount g \<longrightarrow> commandBuffers g ! j \<noteq> h) \<longrightarrow>
          recorded drv' h = recorded ?drv1 h"
    and later: "\<forall>j. Suc i \<le> j \<and> j < swapchainImageCount g \<longrightarrow>
          recorded drv' (commandBuffers g ! j) = Some (?cmds j)"
    by blast+
  from ex obtain f m where "drv' = ?drv1 \<lparr> fresh := f, recorded := m \<rparr>"
    by blast
  then have "drv' = drv \<lparr> fresh := f, recorded := m \<rparr>"
    by simp
  then have a: "\<exists>f m. drv' = drv \<lparr> fresh := f, recorded := m \<rparr>"
    by blast
  have b: "\<forall>h. (\<forall>j. i \<le> j \<and> j < swapchainImageCount g \<longrightarrow> commandBuffers g ! j \<noteq> h) \<longrightarrow>
          recorded drv' h = recorded drv h"
  proof (intro allI impI)
    fix h
    assume h: "\<forall>j. i \<le> j \<and> j < swapchainImageCount g \<longrightarrow> commandBuffers g ! j \<noteq> h"
    then have "\<forall>j. Suc i \<le> j \<and> j < swapchainImageCount g \<longrightarrow> commandBuffers g ! j \<noteq> h"
      by simp
    with frame have "recorded drv' h = recorded ?drv1 h"
      by blast
    moreover from h lt have "commandBuffers g ! i \<noteq> h"
      by simp
    ultimately show "recorded drv' h = recorded drv h"
      by simp
  qed
  have other: "\<forall>j. Suc i \<le> j \<and> j < swapchainImageCount g \<longrightarrow>
      commandBuffers g ! j \<noteq> commandBuffers g ! i"
  proof (intro allI impI)
    fix j
    assume j: "Suc i \<le> j \<and> j < swapchainImageCount g"
    with lt Suc.prems(2,3) show "commandBuffers g ! j \<noteq> commandBuffers g ! i"
      by (simp add: nth_eq_iff_index_eq)
  qed
  with frame have at_i: "recorded drv' (commandBuffers g ! i) = recorded ?drv1 (commandBuffers g ! i)"
    by blast
  have c: "\<forall>j. i \<le> j \<and> j < swapchainImageCount g \<longrightarrow>
          recorded drv' (commandBuffers g ! j) = Some (?cmds j)"
  proof (intro allI impI)
    fix j
    assume j: "i \<le> j \<and> j < swapchainImageCount g"
    show "recorded drv' (commandBuffers g ! j) = Some (?cmds j)"
    proof (cases "j = i")
      case True
      with at_i show ?thesis by simp
    next
      case False
      with j have "Suc i \<le> j \<and> j < swapchainImageCount g" by simp
      with later show ?thesis by blast
    qed
  qed
  from same a b c show ?case by blast
qed

section \<open>What each creating function leaves behind\<close>

lemma CreateSwapChain_post:
  assumes "CreateSwapChain details drv g = Inr (drv', g')"
  shows "swapchainImageCount g' = length (swapchainImages g')"
    and "swapchainImages g' = vkGetSwapchainImagesKHR drv' (swapChain g')"
  using assms
  by (auto simp: CreateSwapChain_def Let_def split: sum.splits prod.splits option.splits)

lemma CreateImageViews_post:
  assumes "CreateImageViews drv g = Inr (drv', g')"
  shows "\<exists>vs f m. g' = g \<lparr> swapChainImageViews := vs \<rparr> \<and>
                   drv' = drv \<lparr> fresh := f, imageViewInfos := m \<rparr>"
    and "length (swapChainImageViews g') = swapchainImageCount g"
    and "\<forall>k. k < swapchainImageCount g \<longrightarrow> swapChainImageViews g' ! k = Suc (fresh drv + k)"
    and "\<forall>k. k < swapchainImageCount g \<longrightarrow>
           imageViewInfos drv' (Suc (fresh drv + k)) =
             Some \<lparr> iv_image = swapchainImages g ! k,
                    iv_format = swapchainImageFormat g,
                    iv_levelCount = 1, iv_layerCount = 1 \<rparr>"
proof -
  let ?g0 = "g \<lparr> swapChainImageViews := replicate (swapchainImageCount g) VK_NULL_HANDLE \<rparr>"
  from assms have run: "CreateImageViews_loop 0 drv ?g0 = Inr (drv', g')"
    by (simp add: CreateImageViews_def)
  from CreateImageViews_loop_frame [OF run]
  obtain vs f m where "g' = ?g0 \<lparr> swapChainImageViews := vs \<rparr>"
    and d: "drv' = drv \<lparr> fresh := f, imageViewInfos := m \<rparr>"
    by blast
  then have "g' = g \<lparr> swapChainImageViews := vs \<rparr>"
    by simp
  with d show "\<exists>vs f m. g' = g \<lparr> swapChainImageViews := vs \<rparr> \<and>
                   drv' = drv \<lparr> fresh := f, imageViewInfos := m \<rparr>"
    by blast
  have len: "length (swapChainImageViews ?g0) = swapchainImageCount ?g0"
    by simp
  note c = CreateImageViews_loop_content [OF run len]
  from c show "length (swapChainImageViews g') = swapchainImageCount g"
    by simp
  from c have "\<forall>k. 0 + k < swapchainImageCount ?g0 \<longrightarrow>
      swapChainImageViews g' ! (0 + k) = Suc (fresh drv + k)"
    by blast
  then show "\<forall>k. k < swapchainImageCount g \<longrightarrow> swapChainImageViews g' ! k = Suc (fresh drv + k)"
    by simp
  from c have "\<forall>k. 0 + k < swapchainImageCount ?g0 \<longrightarrow>
      imageViewInfos drv' (Suc (fresh drv + k)) =
        Some \<lparr> iv_image = swapchainImages ?g0 ! (0 + k),
               iv_format = swapchainImageFormat ?g0,
               iv_levelCount = 1, iv_layerCount = 1 \<rparr>"
    by blast
  then show "\<forall>k. k < swapchainImageCount g \<longrightarrow>
           imageViewInfos drv' (Suc (fresh drv + k)) =
             Some \<lparr> iv_image = swapchainImages g ! k,
                    iv_format = swapchainImageFormat g,
                    iv_levelCount = 1, iv_layerCount = 1 \<rparr>"
    by simp
qed

lemma CreateFramebuffers_post:
  assumes "CreateFramebuffers drv g = Inr (drv', g')"
  shows "\<exists>vs f m. g' = g \<lparr> swapchainFramebuffers := vs \<rparr> \<and>
                   drv' = drv \<lparr> fresh := f, framebufferInfos := m \<rparr>"
    and "length (swapchainFramebuffers g') = swapchainImageCount g"
    and "\<forall>k. k < swapchainImageCount g \<longrightarrow> swapchainFramebuffers g' ! k = Suc (fresh drv + k)"
    and "\<forall>k. k < swapchainImageCount g \<longrightarrow>
           framebufferInfos drv' (Suc (fresh drv + k)) =
             Some \<lparr> fb_renderPass = renderPass g,
                    fb_attachments = [swapChainImageViews g ! k],
                    fb_width = width (swapchainExtent g),
                    fb_height = height (swapchainExtent g),
                    fb_layers = 1 \<rparr>"
proof -
  let ?g0 = "g \<lparr> swapchainFramebuffers := replicate (swapchainImageCount g) VK_NULL_HANDLE \<rparr>"
  from assms have run: "CreateFramebuffers_loop 0 drv ?g0 = Inr (drv', g')"
    by (simp add: CreateFramebuffers_def)
  from CreateFramebuffers_loop_frame [OF run]
  obtain vs f m where "g' = ?g0 \<lparr> swapchainFramebuffers := vs \<rparr>"
    and d: "drv' = drv \<lparr> fresh := f, framebufferInfos := m \<rparr>"
    by blast
  then have "g' = g \<lparr> swapchainFramebuffers := vs \<rparr>"
    by simp
  with d show "\<exists>vs f m. g' = g \<lparr> swapchainFramebuffers := vs \<rparr> \<and>
                   drv' = drv \<lparr> fresh := f, framebufferInfos := m \<rparr>"
    by blast
  have len: "length (swapchainFramebuffers ?g0) = swapchainImageCount ?g0"
    by simp
  note c = CreateFramebuffers_loop_content [OF run len]
  from c show "length (swapchainFramebuffers g') = swapchainImageCount g"
    by simp
  from c have "\<forall>k. 0 + k < swapchainImageCount ?g0 \<longrightarrow>
      swapchainFramebuffers g' ! (0 + k) = Suc (fresh drv + k)"
    by blast
  then show "\<forall>k. k < swapchainImageCount g \<longrightarrow> swapchainFramebuffers g' ! k = Suc (fresh drv + k)"
    by simp
  from c have "\<forall>k. 0 + k < swapchainImageCount ?g0 \<longrightarrow>
      framebufferInfos drv' (Suc (fresh drv + k)) =
        Some \<lparr> fb_renderPass = renderPass ?g0,
               fb_attachments = [swapChainImageViews ?g0 ! (0 + k)],
               fb_width = width (swapchainExtent ?g0),
               fb_height = height (swapchainExtent ?g0),
               fb_layers = 1 \<rparr>"
    by blast
  then show "\<forall>k. k < swapchainImageCount g \<longrightarrow>
           framebufferInfos drv' (Suc (fresh drv + k)) =
             Some \<lparr> fb_renderPass = renderPass g,
                    fb_attachments = [swapChainImageViews g ! k],
                    fb_width = width (swapchainExtent g),
                    fb_height = height (swapchainExtent g),
                    fb_layers = 1 \<rparr>"
    by simp
qed

lemma CreateCommandBuffers_post:
  assumes "CreateCommandBuffers drv g = Inr (drv', g')"
  shows "\<exists>bs f m. g' = g \<lparr> commandBuffers := bs \<rparr> \<and> drv' = drv \<lparr> fresh := f, recorded := m \<rparr>"
    and "length (commandBuffers g') = swapchainImageCount g"
    and "distinct (commandBuffers g')"
    and "\<forall>j. j < swapchainImageCount g \<longrightarrow>
           recorded drv' (commandBuffers g' ! j) =
             Some [CmdBeginRenderPass (renderPassBeginInfo g' j),
                   CmdBindPipeline (graphicsPipeline g'),
                   CmdDraw 3 1 0 0,
                   CmdEndRenderPass]"
proof -
  let ?bs = "[Suc (Suc (fresh drv)) ..< Suc (Suc (fresh drv) + swapchainImageCount g)]"
  let ?drv1 = "drv \<lparr> fresh := Suc (fresh drv) + swapchainImageCount g \<rparr>"
  let ?g1 = "g \<lparr> commandBuffers := ?bs \<rparr>"
  from assms have acc: "\<not> rejects drv (fresh drv)"
    by (auto simp: CreateCommandBuffers_def vkAllocateCommandBuffers_eq split: if_splits)
  with assms have run: "CreateCommandBuffers_loop 0 ?drv1 ?g1 = Inr (drv', g')"
    by (simp add: CreateCommandBuffers_def vkAllocateCommandBuffers_eq)
  have "length ?bs = swapchainImageCount g"
    by (simp only: length_upt add_Suc diff_Suc_Suc diff_add_inverse)
  then have len: "length (commandBuffers ?g1) = swapchainImageCount ?g1"
    by (simp del: length_upt)
  have dist: "distinct (commandBuffers ?g1)"
    by simp
  note c = CreateCommandBuffers_loop_content [OF run dist len]
  from c have same: "g' = ?g1"
    by blast
  from c obtain f m where "drv' = ?drv1 \<lparr> fresh := f, recorded := m \<rparr>"
    by blast
  then have "drv' = drv \<lparr> fresh := f, recorded := m \<rparr>"
    by simp
  with same show "\<exists>bs f m. g' = g \<lparr> commandBuffers := bs \<rparr> \<and>
      drv' = drv \<lparr> fresh := f, recorded := m \<rparr>"
    by blast
  from same len show "length (commandBuffers g') = swapchainImageCount g"
    by (simp del: length_upt)
  from same show "distinct (commandBuffers g')"
    by simp
  from c have "\<forall>j. 0 \<le> j \<and> j < swapchainImageCount ?g1 \<longrightarrow>
          recorded drv' (commandBuffers ?g1 ! j) =
            Some [CmdBeginRenderPass (renderPassBeginInfo ?g1 j),
                  CmdBindPipeline (graphicsPipeline ?g1),
                  CmdDraw 3 1 0 0,
                  CmdEndRenderPass]"
    by blast
  with same show "\<forall>j. j < swapchainImageCount g \<longrightarrow>
           recorded drv' (commandBuffers g' ! j) =
             Some [CmdBeginRenderPass (renderPassBeginInfo g' j),
                   CmdBindPipeline (graphicsPipeline g'),
                   CmdDraw 3 1 0 0,
                   CmdEndRenderPass]"
    by simp
qed

lemma CreateRenderPass_post:
  "CreateRenderPass drv g = Inr (drv', g') \<Longrightarrow>
     \<exists>rp f. g' = g \<lparr> renderPass := rp \<rparr> \<and> drv' = drv \<lparr> fresh := f \<rparr>"
  by (auto simp: CreateRenderPass_def vk_create_eq split: if_splits)

lemma CreateGraphicsPipeline_post:
  "CreateGraphicsPipeline drv g = Inr (drv', g') \<Longrightarrow>
     \<exists>l p f. g' = g \<lparr> pipelineLayout := l, graphicsPipeline := p \<rparr> \<and> drv' = drv \<lparr> fresh := f \<rparr>"
  by (auto simp: CreateGraphicsPipeline_def vk_create_eq split: if_splits)

lemma CreateCommandPool_post:
  "CreateCommandPool drv g = Inr (drv', g') \<Longrightarrow>
     \<exists>p f. g' = g \<lparr> commandPool := p \<rparr> \<and> drv' = drv \<lparr> fresh := f \<rparr>"
  by (auto simp: CreateCommandPool_def vk_create_eq split: if_splits)

lemma CreateSemaphores_post:
  "CreateSemaphores drv g = Inr (drv', g') \<Longrightarrow>
     \<exists>a b f. g' = g \<lparr> imageAvailableSemaphore := a, renderFinishedSemaphore := b \<rparr> \<and>
             drv' = drv \<lparr> fresh := f \<rparr>"
  by (auto simp: CreateSemaphores_def vk_create_eq split: if_splits)

lemma and_then_Inr:
  "and_then r f = Inr (drv', g') \<longleftrightarrow> (\<exists>drv1 g1. r = Inr (drv1, g1) \<and> f drv1 g1 = Inr (drv', g'))"
  by (auto simp: and_then_def split: sum.splits)

section \<open>The swapchain resources after initialisation\<close>

lemma create_swapchain_resources_post:
  assumes "create_swapchain_resources details drv g = Inr (drv', g')"
  shows "swapchainImageCount g' = length (vkGetSwapchainImagesKHR drv' (swapChain g'))"
    and "swapchainImages g' = vkGetSwapchainImagesKHR drv' (swapChain g')"
    and "length (swapChainImageViews g') = swapchainImageCount g'"
    and "length (swapchainFramebuffers g') = swapchainImageCount g'"
    and "length (commandBuffers g') = swapchainImageCount g'"
    and "\<forall>i. i < swapchainImageCount g' \<longrightarrow>
           recorded drv' (commandBuffers g' ! i) =
             Some [CmdBeginRenderPass
                     \<lparr> rp_renderPass = renderPass g',
                       rp_framebuffer = swapchainFramebuffers g' ! i,
                       rp_renderArea = swapchainExtent g',
                       rp_clearValueCount = 1 \<rparr>,
                   CmdBindPipeline (graphicsPipeline g'),
                   CmdDraw 3 1 0 0,
                   CmdEndRenderPass]"
    and "\<forall>i. i < swapchainImageCount g' \<longrightarrow>
           framebufferInfos drv' (swapchainFramebuffers g' ! i) =
             Some \<lparr> fb_renderPass = renderPass g',
                    fb_attachments = [swapChainImageViews g' ! i],
                    fb_width = width (swapchainExtent g'),
                    fb_height = height (swapchainExtent g'),
                    fb_layers = 1 \<rparr>"
    and "\<forall>i. i < swapchainImageCount g' \<longrightarrow>
           imageViewInfos drv' (swapChainImageViews g' ! i) =
             Some \<lparr> iv_image = swapchainImages g' ! i,
                    iv_format = swapchainImageFormat g',
                    iv_levelCount = 1, iv_layerCount = 1 \<rparr>"
    and "distinct (swapChainImageViews g')"
    and "distinct (swapchainFramebuffers g')"
    and "distinct (commandBuffers g')"
proof -
  from assms have "and_then (and_then (and_then (and_then (and_then (and_then
          (CreateSwapChain details drv g)
          CreateImageViews)
          CreateRenderPass)
          CreateGraphicsPipeline)
          CreateFramebuffers)
          CreateCommandPool)
          CreateCommandBuffers = Inr (drv', g')"
    by (simp add: create_swapchain_resources_def split: if_splits)
  then obtain d6 g6 where s7: "CreateCommandBuffers d6 g6 = Inr (drv', g')"
    and r6: "and_then (and_then (and_then (and_then (and_then
          (CreateSwapChain details drv g)
          CreateImageViews)
          CreateRenderPass)
          CreateGraphicsPipeline)
          CreateFramebuffers)
          CreateCommandPool = Inr (d6, g6)"
    unfolding and_then_Inr [of _ CreateCommandBuffers] by blast
  from r6 obtain d5 g5 where s6: "CreateCommandPool d5 g5 = Inr (d6, g6)"
    and r5: "and_then (and_then (and_then (and_then
          (CreateSwapChain details drv g)
          CreateImageViews)
          CreateRenderPass)
          CreateGraphicsPipeline)
          CreateFramebuffers = Inr (d5, g5)"
    unfolding and_then_Inr [of _ CreateCommandPool] by blast
  from r5 obtain d4 g4 where s5: "CreateFramebuffers d4 g4 = Inr (d5, g5)"
    and r4: "and_then (and_then (and_then
          (CreateSwapChain details drv g)
          CreateImageViews)
          CreateRenderPass)
          CreateGraphicsPipeline = Inr (d4, g4)"
    unfolding and_then_Inr [of _ CreateFramebuffers] by blast
  from r4 obtain d3 g3 where s4: "CreateGraphicsPipeline d3 g3 = Inr (d4, g4)"
    and r3: "and_then (and_then
          (CreateSwapChain details drv g)
          CreateImageViews)
          CreateRenderPass = Inr (d3, g3)"
    unfolding and_then_Inr [of _ CreateGraphicsPipeline] by blast
  from r3 obtain d2 g2 where s3: "CreateRenderPass d2 g2 = Inr (d3, g3)"
    and r2: "and_then (CreateSwapChain details drv g) CreateImageViews = Inr (d2, g2)"
    unfolding and_then_Inr [of _ CreateRenderPass] by blast
  from r2 obtain d1 g1 where s2: "CreateImageViews d1 g1 = Inr (d2, g2)"
    and s1: "CreateSwapChain details drv g = Inr (d1, g1)"
    unfolding and_then_Inr [of _ CreateImageViews] by blast

  from CreateImageViews_post(1) [OF s2] obtain vs f2 m2
    where g2: "g2 = g1 \<lparr> swapChainImageViews := vs \<rparr>"
      and d2: "d2 = d1 \<lparr> fresh := f2, imageViewInfos := m2 \<rparr>"
    by blast
  from CreateRenderPass_post [OF s3] obtain rp f3
    where g3: "g3 = g2 \<lparr> renderPass := rp \<rparr>" and d3: "d3 = d2 \<lparr> fresh := f3 \<rparr>"
    by blast
  from CreateGraphicsPipeline_post [OF s4] obtain l p f4
    where g4: "g4 = g3 \<lparr> pipelineLayout := l, graphicsPipeline := p \<rparr>"
      and d4: "d4 = d3 \<lparr> fresh := f4 \<rparr>"
    by blast
  from CreateFramebuffers_post(1) [OF s5] obtain fs f5 m5
    where g5: "g5 = g4 \<lparr> swapchainFramebuffers := fs \<rparr>"
      and d5: "d5 = d4 \<lparr> fresh := f5, framebufferInfos := m5 \<rparr>"
    by blast
  from CreateCommandPool_post [OF s6] obtain cp f6
    where g6: "g6 = g5 \<lparr> commandPool := cp \<rparr>" and d6: "d6 = d5 \<lparr> fresh := f6 \<rparr>"
    by blast
  from CreateCommandBuffers_post(1) [OF s7] obtain bs f7 m7
    where g7: "g' = g6 \<lparr> commandBuffers := bs \<rparr>"
      and d7: "drv' = d6 \<lparr> fresh := f7, recorded := m7 \<rparr>"
    by blast

  let ?n = "swapchainImageCount g1"
  have n: "swapchainImageCount g' = ?n"
    by (simp add: g7 g6 g5 g4 g3 g2)

  from CreateSwapChain_post [OF s1]
  have "?n = length (swapchainImages g1)"
    and "swapchainImages g1 = vkGetSwapchainImagesKHR d1 (swapChain g1)"
    by simp_all
  then show "swapchainImageCount g' = length (vkGetSwapchainImagesKHR drv' (swapChain g'))"
    and "swapchainImages g' = vkGetSwapchainImagesKHR drv' (swapChain g')"
    by (simp_all add: g7 g6 g5 g4 g3 g2 d7 d6 d5 d4 d3 d2 vkGetSwapchainImagesKHR_def)

  have views: "swapChainImageViews g' = swapChainImageViews g2"
    by (simp add: g7 g6 g5 g4 g3)
  have views_len: "length (swapChainImageViews g2) = ?n"
    using CreateImageViews_post(2) [OF s2] .
  have views_nth: "\<forall>k. k < ?n \<longrightarrow> swapChainImageViews g2 ! k = Suc (fresh d1 + k)"
    using CreateImageViews_post(3) [OF s2] .
  have views_info: "\<forall>k. k < ?n \<longrightarrow>
      imageViewInfos d2 (Suc (fresh d1 + k)) =
        Some \<lparr> iv_image = swapchainImages g1 ! k,
               iv_format = swapchainImageFormat g1,
               iv_levelCount = 1, iv_layerCount = 1 \<rparr>"
    using CreateImageViews_post(4) [OF s2] .
  from views views_len n show "length (swapChainImageViews g') = swapchainImageCount g'"
    by simp

  have fbs: "swapchainFramebuffers g' = swapchainFramebuffers g5"
    by (simp add: g7 g6)
  have n4: "swapchainImageCount g4 = ?n"
    by (simp add: g4 g3 g2)
  have fbs_len: "length (swapchainFramebuffers g5) = ?n"
    using CreateFramebuffers_post(2) [OF s5] n4 by simp
  have fbs_nth: "\<forall>k. k < ?n \<longrightarrow> swapchainFramebuffers g5 ! k = Suc (fresh d4 + k)"
    using CreateFramebuffers_post(3) [OF s5] n4 by simp
  have fbs_info: "\<forall>k. k < ?n \<longrightarrow>
      framebufferInfos d5 (Suc (fresh d4 + k)) =
        Some \<lparr> fb_renderPass = renderPass g4,
               fb_attachments = [swapChainImageViews g4 ! k],
               fb_width = width (swapchainExtent g4),
               fb_height = height (swapchainExtent g4),
               fb_layers = 1 \<rparr>"
    using CreateFramebuffers_post(4) [OF s5] n4 by simp
  from fbs fbs_len n show "length (swapchainFramebuffers g') = swapchainImageCount g'"
    by simp

  have n6: "swapchainImageCount g6 = ?n"
    by (simp add: g6 g5 g4 g3 g2)
  from CreateCommandBuffers_post(2) [OF s7] n6 n
  show "length (commandBuffers g') = swapchainImageCount g'"
    by simp
  from CreateCommandBuffers_post(3) [OF s7]
  show "distinct (commandBuffers g')" .

  from CreateCommandBuffers_post(4) [OF s7] n6
  have "\<forall>j. j < ?n \<longrightarrow>
           recorded drv' (commandBuffers g' ! j) =
             Some [CmdBeginRenderPass (renderPassBeginInfo g' j),
                   CmdBindPipeline (graphicsPipeline g'),
                   CmdDraw 3 1 0 0,
                   CmdEndRenderPass]"
    by simp
  with n show "\<forall>i. i < swapchainImageCount g' \<longrightarrow>
           recorded drv' (commandBuffers g' ! i) =
             Some [CmdBeginRenderPass
                     \<lparr> rp_renderPass = renderPass g',
                       rp_framebuffer = swapchainFramebuffers g' ! i,
                       rp_renderArea = swapchainExtent g',
                       rp_clearValueCount = 1 \<rparr>,
                   CmdBindPipeline (graphicsPipeline g'),
                   CmdDraw 3 1 0 0,
                   CmdEndRenderPass]"
    by (simp add: renderPassBeginInfo_def)

  have fb_store: "framebufferInfos drv' = framebufferInfos d5"
    by (simp add: d7 d6)
  have g'_of_g4: "renderPass g' = renderPass g4" "swapChainImageViews g' = swapChainImageViews g4"
    "swapchainExtent g' = swapchainExtent g4"
    by (simp_all add: g7 g6 g5)
  show "\<forall>i. i < swapchainImageCount g' \<longrightarrow>
           framebufferInfos drv' (swapchainFramebuffers g' ! i) =
             Some \<lparr> fb_renderPass = renderPass g',
                    fb_attachments = [swapChainImageViews g' ! i],
                    fb_width = width (swapchainExtent g'),
                    fb_height = height (swapchainExtent g'),
                    fb_layers = 1 \<rparr>"
    using fbs_nth fbs_info
    by (simp add: n fbs fb_store g'_of_g4)

  have iv_store: "imageViewInfos drv' = imageViewInfos d2"
    by (simp add: d7 d6 d5 d4 d3)
  have g'_of_g1: "swapchainImages g' = swapchainImages g1"
    "swapchainImageFormat g' = swapchainImageFormat g1"
    by (simp_all add: g7 g6 g5 g4 g3 g2)
  show "\<forall>i. i < swapchainImageCount g' \<longrightarrow>
           imageViewInfos drv' (swapChainImageViews g' ! i) =
             Some \<lparr> iv_image = swapchainImages g' ! i,
                    iv_format = swapchainImageFormat g',
                    iv_levelCount = 1, iv_layerCount = 1 \<rparr>"
    using views_nth views_info
    by (simp add: n views iv_store g'_of_g1)

  have "swapChainImageViews g2 = map (\<lambda>k. Suc (fresh d1 + k)) [0 ..< ?n]"
    using views_len views_nth by (simp add: list_eq_iff_nth_eq)
  then show "distinct (swapChainImageViews g')"
    by (simp add: views distinct_map inj_on_def)
  have "swapchainFramebuffers g5 = map (\<lambda>k. Suc (fresh d4 + k)) [0 ..< ?n]"
    using fbs_len fbs_nth by (simp add: list_eq_iff_nth_eq)
  then show "distinct (swapchainFramebuffers g')"
    by (simp add: fbs distinct_map inj_on_def)
qed

text \<open>The initialisation at an instance with two devices (the discrete one, 9, is
  chosen) and two queue families, capabilities that ask for two images, and an
  implementation that rejects nothing.\<close>

lemma main_init_example:
  "(case main_init (example_instance families_graphics_first) (\<lambda>d. details_sentinel)
          accepting_driver of
      Inl e \<Rightarrow> False
    | Inr (drv', g') \<Rightarrow>
        physicalDevice g' = 9 \<and>
        swapchainImageCount g' = 2 \<and>
        vkGetSwapchainImagesKHR drv' (swapChain g') = [3, 4] \<and>
        swapChainImageViews g' = [5, 6] \<and>
        renderPass g' = 7 \<and>
        graphicsPipeline g' = 11 \<and>
        swapchainFramebuffers g' = [12, 13] \<and>
        commandBuffers g' = [16, 17] \<and>
        swapchainExtent g' = \<lparr> width = 800, height = 600 \<rparr> \<and>
        swapchainImageFormat g' = VK_FORMAT_B8G8R8A8_UNORM \<and>
        imageAvailableSemaphore g' = 22 \<and>
        renderFinishedSemaphore g' = 23)"
  by (simp add: main_init_def example_instance_def details_sentinel_def accepting_driver_def
      families_graphics_first_def initial_globals_def zeroed_indices_def
      PickPhysicalVulkanDevice_def select_physicalDevice_def IsDiscreteGPU_def VK_NULL_HANDLE_def
      requiredExtensions_def CreateLogicalDevice_def FindQueueFamilies_def Let_def
      deviceCreateInfo_def vkCreateDevice_def vk_create_eq and_then_def
      create_swapchain_resources_def CreateSwapChain_def ChooseSwapSurfaceFormat_def
      ChoosePresentMode_def ChooseSwapExtent_def swapchainCreateInfo_def leave_block_def
      imageCount_def MAX_macro_def MIN_macro_def WIDTH_def HEIGHT_def UINT32_MAX_def
      vkCreateSwapchainKHR_def vkGetSwapchainImagesKHR_def
      CreateImageViews_def CreateImageViews_loop.simps vkCreateImageView_def
      CreateRenderPass_def CreateGraphicsPipeline_def
      CreateFramebuffers_def CreateFramebuffers_loop.simps vkCreateFramebuffer_def
      CreateCommandPool_def CreateCommandBuffers_def CreateCommandBuffers_loop.simps
      CreateSemaphores_def
      vkAllocateCommandBuffers_eq vkBeginCommandBuffer_eq vkEndCommandBuffer_def vk_call_def
      record_commands_def vkCmd_def renderPassBeginInfo_def upt_rec)

text \<open>
  C9. After a successful initialisation (lines 801 to 819 of \<^verbatim>\<open>main\<close>), the image
  count is the number of images read back from the swapchain; the arrays of image
  views, framebuffers and command buffers all have that length; and for every index
  \<open>i\<close> below it, command buffer \<open>i\<close> holds exactly one render-pass begin, against
  framebuffer \<open>i\<close>, followed by the pipeline bind, the draw of 3 vertices and the
  render-pass end; framebuffer \<open>i\<close> was created with image view \<open>i\<close> as its only
  attachment; image view \<open>i\<close> was created for swapchain image \<open>i\<close>; and framebuffer
  \<open>i\<close> is a different object from every other framebuffer of the array.
\<close>

theorem main_init_resources_parallel:
  assumes "main_init inst support drv = Inr (drv', g')"
  shows "swapchainImageCount g' = length (vkGetSwapchainImagesKHR drv' (swapChain g')) \<and>
     length (swapChainImageViews g') = swapchainImageCount g' \<and>
     length (swapchainFramebuffers g') = swapchainImageCount g' \<and>
     length (commandBuffers g') = swapchainImageCount g' \<and>
     (\<forall>i. i < swapchainImageCount g' \<longrightarrow>
        recorded drv' (commandBuffers g' ! i) =
          Some [CmdBeginRenderPass
                  \<lparr> rp_renderPass = renderPass g',
                    rp_framebuffer = swapchainFramebuffers g' ! i,
                    rp_renderArea = swapchainExtent g',
                    rp_clearValueCount = 1 \<rparr>,
                CmdBindPipeline (graphicsPipeline g'),
                CmdDraw 3 1 0 0,
                CmdEndRenderPass] \<and>
        framebufferInfos drv' (swapchainFramebuffers g' ! i) =
          Some \<lparr> fb_renderPass = renderPass g',
                 fb_attachments = [swapChainImageViews g' ! i],
                 fb_width = width (swapchainExtent g'),
                 fb_height = height (swapchainExtent g'),
                 fb_layers = 1 \<rparr> \<and>
        imageViewInfos drv' (swapChainImageViews g' ! i) =
          Some \<lparr> iv_image = vkGetSwapchainImagesKHR drv' (swapChain g') ! i,
                 iv_format = swapchainImageFormat g',
                 iv_levelCount = 1, iv_layerCount = 1 \<rparr> \<and>
        (\<forall>j. j < swapchainImageCount g' \<and> j \<noteq> i \<longrightarrow>
           swapchainFramebuffers g' ! j \<noteq> swapchainFramebuffers g' ! i))"
proof -
  from assms obtain drv1 g1 drv2 g2
    where "create_swapchain_resources (support (physicalDevice g1)) drv1 g1 = Inr (drv2, g2)"
      and sem: "CreateSemaphores drv2 g2 = Inr (drv', g')"
    by (auto simp: main_init_def and_then_Inr split: sum.splits)
  note post = create_swapchain_resources_post [OF this(1)]
  from CreateSemaphores_post [OF sem] obtain a b f
    where g': "g' = g2 \<lparr> imageAvailableSemaphore := a, renderFinishedSemaphore := b \<rparr>"
      and drv': "drv' = drv2 \<lparr> fresh := f \<rparr>"
    by blast
  have "\<forall>i. i < swapchainImageCount g2 \<longrightarrow>
      (\<forall>j. j < swapchainImageCount g2 \<and> j \<noteq> i \<longrightarrow>
           swapchainFramebuffers g2 ! j \<noteq> swapchainFramebuffers g2 ! i)"
    using post(4) post(10) by (simp add: nth_eq_iff_index_eq)
  with post(1) post(2) post(3) post(4) post(5) post(6) post(7) post(8)
  show ?thesis
    by (simp add: g' drv' vkGetSwapchainImagesKHR_def)
qed

text \<open>The theorem at that initialisation: it succeeds with two images, and the two
  command buffers 16 and 17 begin their render passes against the framebuffers 12 and
  13, which wrap the image views 5 and 6 of the swapchain images 3 and 4.\<close>

theorem main_init_resources_parallel_witness:
  "(case main_init (example_instance families_graphics_first) (\<lambda>d. details_sentinel)
          accepting_driver of
      Inl e \<Rightarrow> False
    | Inr (drv', g') \<Rightarrow>
        swapchainImageCount g' = 2 \<and>
        length (vkGetSwapchainImagesKHR drv' (swapChain g')) = 2 \<and>
        length (swapChainImageViews g') = 2 \<and>
        length (swapchainFramebuffers g') = 2 \<and>
        length (commandBuffers g') = 2 \<and>
        recorded drv' 16 =
          Some [CmdBeginRenderPass
                  \<lparr> rp_renderPass = 7, rp_framebuffer = 12,
                    rp_renderArea = \<lparr> width = 800, height = 600 \<rparr>,
                    rp_clearValueCount = 1 \<rparr>,
                CmdBindPipeline 11, CmdDraw 3 1 0 0, CmdEndRenderPass] \<and>
        recorded drv' 17 =
          Some [CmdBeginRenderPass
                  \<lparr> rp_renderPass = 7, rp_framebuffer = 13,
                    rp_renderArea = \<lparr> width = 800, height = 600 \<rparr>,
                    rp_clearValueCount = 1 \<rparr>,
                CmdBindPipeline 11, CmdDraw 3 1 0 0, CmdEndRenderPass] \<and>
        framebufferInfos drv' 12 =
          Some \<lparr> fb_renderPass = 7, fb_attachments = [5],
                 fb_width = 800, fb_height = 600, fb_layers = 1 \<rparr> \<and>
        framebufferInfos drv' 13 =
          Some \<lparr> fb_renderPass = 7, fb_attachments = [6],
                 fb_width = 800, fb_height = 600, fb_layers = 1 \<rparr> \<and>
        imageViewInfos drv' 5 =
          Some \<lparr> iv_image = 3, iv_format = VK_FORMAT_B8G8R8A8_UNORM,
                 iv_levelCount = 1, iv_layerCount = 1 \<rparr> \<and>
        imageViewInfos drv' 6 =
          Some \<lparr> iv_image = 4, iv_format = VK_FORMAT_B8G8R8A8_UNORM,
                 iv_levelCount = 1, iv_layerCount = 1 \<rparr>)"
proof (cases "main_init (example_instance families_graphics_first) (\<lambda>d. details_sentinel)
          accepting_driver")
  case (Inl e)
  with main_init_example show ?thesis
    by simp
next
  case (Inr r)
  obtain drv' g' where r: "r = (drv', g')"
    by (cases r)
  note run = Inr [unfolded r]
  note general = main_init_resources_parallel [OF run]
  from main_init_example run
  have ev: "swapchainImageCount g' = 2"
    "vkGetSwapchainImagesKHR drv' (swapChain g') = [3, 4]"
    "swapChainImageViews g' = [5, 6]" "renderPass g' = 7" "graphicsPipeline g' = 11"
    "swapchainFramebuffers g' = [12, 13]" "commandBuffers g' = [16, 17]"
    "swapchainExtent g' = \<lparr> width = 800, height = 600 \<rparr>"
    "swapchainImageFormat g' = VK_FORMAT_B8G8R8A8_UNORM"
    by simp_all
  from general have at: "\<And>i. i < swapchainImageCount g' \<Longrightarrow>
        recorded drv' (commandBuffers g' ! i) =
          Some [CmdBeginRenderPass
                  \<lparr> rp_renderPass = renderPass g',
                    rp_framebuffer = swapchainFramebuffers g' ! i,
                    rp_renderArea = swapchainExtent g',
                    rp_clearValueCount = 1 \<rparr>,
                CmdBindPipeline (graphicsPipeline g'),
                CmdDraw 3 1 0 0,
                CmdEndRenderPass] \<and>
        framebufferInfos drv' (swapchainFramebuffers g' ! i) =
          Some \<lparr> fb_renderPass = renderPass g',
                 fb_attachments = [swapChainImageViews g' ! i],
                 fb_width = width (swapchainExtent g'),
                 fb_height = height (swapchainExtent g'),
                 fb_layers = 1 \<rparr> \<and>
        imageViewInfos drv' (swapChainImageViews g' ! i) =
          Some \<lparr> iv_image = vkGetSwapchainImagesKHR drv' (swapChain g') ! i,
                 iv_format = swapchainImageFormat g',
                 iv_levelCount = 1, iv_layerCount = 1 \<rparr>"
    by blast
  from at [of 0] at [of 1] show ?thesis
    by (simp add: run ev)
qed

section \<open>Initialisation succeeds when the implementation rejects nothing\<close>

lemma FindQueueFamilies_loop_didSetPresent:
  "didSetPresentFamily (FindQueueFamilies_loop fs i indices) \<longleftrightarrow>
     didSetPresentFamily indices \<or> (\<exists>f \<in> set fs. surfaceSupported f)"
  by (induction fs arbitrary: i indices) (auto simp: Let_def)

lemma CreateLogicalDevice_succeeds:
  assumes "\<forall>n. \<not> rejects drv n"
    and "\<exists>f \<in> set (queueFamilies inst (physicalDevice g)). surfaceSupported f"
  shows "\<exists>drv' g'. CreateLogicalDevice inst drv g = Inr (drv', g') \<and>
           rejects drv' = rejects drv \<and> physicalDevice g' = physicalDevice g"
proof -
  from assms(2) have ne: "queueFamilies inst (physicalDevice g) \<noteq> []"
    by auto
  with FindQueueFamilies_loop_graphics [of "queueFamilies inst (physicalDevice g)" 0 zeroed_indices]
  have "didSetGraphicsFamily (FindQueueFamilies (queueFamilies inst (physicalDevice g)))"
    by (simp add: FindQueueFamilies_def)
  moreover from assms(2) ne
  have "didSetPresentFamily (FindQueueFamilies (queueFamilies inst (physicalDevice g)))"
    by (simp add: FindQueueFamilies_def FindQueueFamilies_loop_didSetPresent)
  ultimately show ?thesis
    using assms(1)
    by (simp add: CreateLogicalDevice_def Let_def vkCreateDevice_def vk_create_eq)
qed

lemma CreateSwapChain_succeeds:
  assumes "\<forall>n. \<not> rejects drv n" and "formats details \<noteq> []"
  shows "\<exists>drv' g'. CreateSwapChain details drv g = Inr (drv', g') \<and> rejects drv' = rejects drv"
proof -
  from assms(2) obtain f where "ChooseSwapSurfaceFormat details = Inr f"
    by (cases "ChooseSwapSurfaceFormat_loop (formats details)"; cases "formats details")
      (simp_all add: ChooseSwapSurfaceFormat_def)
  with assms(1) show ?thesis
    by (simp add: CreateSwapChain_def Let_def vkCreateSwapchainKHR_def vk_create_eq)
qed

lemma CreateImageViews_loop_succeeds:
  "\<forall>n. \<not> rejects drv n \<Longrightarrow> swapchainImageCount g \<le> length (swapchainImages g) \<Longrightarrow>
     \<exists>drv' g'. CreateImageViews_loop i drv g = Inr (drv', g')"
proof (induction "swapchainImageCount g - i" arbitrary: i drv g)
  case 0
  then show ?case
    by (simp add: CreateImageViews_loop_Inr)
next
  case (Suc n)
  let ?drv1 = "drv \<lparr> fresh := Suc (fresh drv),
                     imageViewInfos := (imageViewInfos drv)
                       (Suc (fresh drv) \<mapsto>
                          \<lparr> iv_image = swapchainImages g ! i,
                            iv_format = swapchainImageFormat g,
                            iv_levelCount = 1, iv_layerCount = 1 \<rparr>) \<rparr>"
  let ?g1 = "g \<lparr> swapChainImageViews := (swapChainImageViews g)[i := Suc (fresh drv)] \<rparr>"
  from Suc.hyps(2) have lt: "i < swapchainImageCount g" by simp
  from Suc.hyps(2) have n: "n = swapchainImageCount ?g1 - Suc i" by simp
  from Suc.prems(1) have acc: "\<forall>n. \<not> rejects ?drv1 n" by simp
  from Suc.prems(2) have len: "swapchainImageCount ?g1 \<le> length (swapchainImages ?g1)" by simp
  from Suc.hyps(1) [OF n acc len]
  obtain drv' g' where "CreateImageViews_loop (Suc i) ?drv1 ?g1 = Inr (drv', g')"
    by blast
  with lt Suc.prems have "CreateImageViews_loop i drv g = Inr (drv', g')"
    by (simp add: CreateImageViews_loop_Inr [of i])
  then show ?case by blast
qed

lemma CreateFramebuffers_loop_succeeds:
  "\<forall>n. \<not> rejects drv n \<Longrightarrow> swapchainImageCount g \<le> length (swapChainImageViews g) \<Longrightarrow>
     \<exists>drv' g'. CreateFramebuffers_loop i drv g = Inr (drv', g')"
proof (induction "swapchainImageCount g - i" arbitrary: i drv g)
  case 0
  then show ?case
    by (simp add: CreateFramebuffers_loop_Inr)
next
  case (Suc n)
  let ?drv1 = "drv \<lparr> fresh := Suc (fresh drv),
                     framebufferInfos := (framebufferInfos drv)
                       (Suc (fresh drv) \<mapsto>
                          \<lparr> fb_renderPass = renderPass g,
                            fb_attachments = [swapChainImageViews g ! i],
                            fb_width = width (swapchainExtent g),
                            fb_height = height (swapchainExtent g),
                            fb_layers = 1 \<rparr>) \<rparr>"
  let ?g1 = "g \<lparr> swapchainFramebuffers := (swapchainFramebuffers g)[i := Suc (fresh drv)] \<rparr>"
  from Suc.hyps(2) have lt: "i < swapchainImageCount g" by simp
  from Suc.hyps(2) have n: "n = swapchainImageCount ?g1 - Suc i" by simp
  from Suc.prems(1) have acc: "\<forall>n. \<not> rejects ?drv1 n" by simp
  from Suc.prems(2) have len: "swapchainImageCount ?g1 \<le> length (swapChainImageViews ?g1)" by simp
  from Suc.hyps(1) [OF n acc len]
  obtain drv' g' where "CreateFramebuffers_loop (Suc i) ?drv1 ?g1 = Inr (drv', g')"
    by blast
  with lt Suc.prems have "CreateFramebuffers_loop i drv g = Inr (drv', g')"
    by (simp add: CreateFramebuffers_loop_Inr [of i])
  then show ?case by blast
qed

lemma CreateCommandBuffers_loop_succeeds:
  "\<forall>n. \<not> rejects drv n \<Longrightarrow> swapchainImageCount g \<le> length (commandBuffers g) \<Longrightarrow>
   swapchainImageCount g \<le> length (swapchainFramebuffers g) \<Longrightarrow>
     \<exists>drv' g'. CreateCommandBuffers_loop i drv g = Inr (drv', g')"
proof (induction "swapchainImageCount g - i" arbitrary: i drv)
  case 0
  then show ?case
    by (simp add: CreateCommandBuffers_loop_Inr)
next
  case (Suc n)
  let ?drv1 = "drv \<lparr> fresh := Suc (Suc (fresh drv)),
                     recorded := (recorded drv)
                       (commandBuffers g ! i \<mapsto>
                          [CmdBeginRenderPass (renderPassBeginInfo g i),
                           CmdBindPipeline (graphicsPipeline g),
                           CmdDraw 3 1 0 0,
                           CmdEndRenderPass]) \<rparr>"
  from Suc.hyps(2) have lt: "i < swapchainImageCount g" by simp
  from Suc.hyps(2) have n: "n = swapchainImageCount g - Suc i" by simp
  from Suc.prems(1) have acc: "\<forall>n. \<not> rejects ?drv1 n" by simp
  from Suc.hyps(1) [OF n acc Suc.prems(2) Suc.prems(3)]
  obtain drv' g' where "CreateCommandBuffers_loop (Suc i) ?drv1 g = Inr (drv', g')"
    by blast
  with lt Suc.prems have "CreateCommandBuffers_loop i drv g = Inr (drv', g')"
    by (simp add: CreateCommandBuffers_loop_Inr [of i])
  then show ?case by blast
qed

lemma create_swapchain_resources_succeeds:
  assumes acc: "\<forall>n. \<not> rejects drv n"
    and "formats details \<noteq> []" and "presentModes details \<noteq> []"
  shows "\<exists>drv' g'. create_swapchain_resources details drv g = Inr (drv', g') \<and>
           rejects drv' = rejects drv"
proof -
  from CreateSwapChain_succeeds [OF acc assms(2)]
  obtain d1 g1 where s1: "CreateSwapChain details drv g = Inr (d1, g1)"
    and a1: "rejects d1 = rejects drv"
    by blast
  from CreateSwapChain_post(1) [OF s1]
  have n1: "swapchainImageCount g1 = length (swapchainImages g1)" .
  let ?g1 = "g1 \<lparr> swapChainImageViews := replicate (swapchainImageCount g1) VK_NULL_HANDLE \<rparr>"
  from acc a1 have "\<forall>n. \<not> rejects d1 n" by simp
  moreover from n1 have "swapchainImageCount ?g1 \<le> length (swapchainImages ?g1)" by simp
  ultimately obtain d2 g2 where "CreateImageViews_loop 0 d1 ?g1 = Inr (d2, g2)"
    using CreateImageViews_loop_succeeds [of d1 ?g1 0] by blast
  then have s2: "CreateImageViews d1 g1 = Inr (d2, g2)"
    by (simp add: CreateImageViews_def)
  from CreateImageViews_post(1) [OF s2] obtain vs f2 m2
    where g2: "g2 = g1 \<lparr> swapChainImageViews := vs \<rparr>"
      and d2: "d2 = d1 \<lparr> fresh := f2, imageViewInfos := m2 \<rparr>"
    by blast
  from CreateImageViews_post(2) [OF s2]
  have len2: "length (swapChainImageViews g2) = swapchainImageCount g1" .
  from acc a1 d2 have a2: "\<forall>n. \<not> rejects d2 n" by simp
  then obtain d3 g3 where s3: "CreateRenderPass d2 g2 = Inr (d3, g3)"
    by (simp add: CreateRenderPass_def vk_create_eq)
  from CreateRenderPass_post [OF s3] obtain rp f3
    where g3: "g3 = g2 \<lparr> renderPass := rp \<rparr>" and d3: "d3 = d2 \<lparr> fresh := f3 \<rparr>"
    by blast
  from a2 d3 have a3: "\<forall>n. \<not> rejects d3 n" by simp
  then obtain d4 g4 where s4: "CreateGraphicsPipeline d3 g3 = Inr (d4, g4)"
    by (simp add: CreateGraphicsPipeline_def vk_create_eq)
  from CreateGraphicsPipeline_post [OF s4] obtain l p f4
    where g4: "g4 = g3 \<lparr> pipelineLayout := l, graphicsPipeline := p \<rparr>"
      and d4: "d4 = d3 \<lparr> fresh := f4 \<rparr>"
    by blast
  from a3 d4 have a4: "\<forall>n. \<not> rejects d4 n" by simp
  let ?g4 = "g4 \<lparr> swapchainFramebuffers := replicate (swapchainImageCount g4) VK_NULL_HANDLE \<rparr>"
  from len2 have "swapchainImageCount ?g4 \<le> length (swapChainImageViews ?g4)"
    by (simp add: g4 g3 g2)
  with a4 obtain d5 g5 where "CreateFramebuffers_loop 0 d4 ?g4 = Inr (d5, g5)"
    using CreateFramebuffers_loop_succeeds [of d4 ?g4 0] by blast
  then have s5: "CreateFramebuffers d4 g4 = Inr (d5, g5)"
    by (simp add: CreateFramebuffers_def)
  from CreateFramebuffers_post(1) [OF s5] obtain fs f5 m5
    where g5: "g5 = g4 \<lparr> swapchainFramebuffers := fs \<rparr>"
      and d5: "d5 = d4 \<lparr> fresh := f5, framebufferInfos := m5 \<rparr>"
    by blast
  from CreateFramebuffers_post(2) [OF s5]
  have len5: "length (swapchainFramebuffers g5) = swapchainImageCount g4" .
  from a4 d5 have a5: "\<forall>n. \<not> rejects d5 n" by simp
  then obtain d6 g6 where s6: "CreateCommandPool d5 g5 = Inr (d6, g6)"
    by (simp add: CreateCommandPool_def vk_create_eq)
  from CreateCommandPool_post [OF s6] obtain cp f6
    where g6: "g6 = g5 \<lparr> commandPool := cp \<rparr>" and d6: "d6 = d5 \<lparr> fresh := f6 \<rparr>"
    by blast
  from a5 d6 have a6: "\<forall>n. \<not> rejects d6 n" by simp
  let ?bs = "[Suc (Suc (fresh d6)) ..< Suc (Suc (fresh d6) + swapchainImageCount g6)]"
  let ?d6 = "d6 \<lparr> fresh := Suc (fresh d6) + swapchainImageCount g6 \<rparr>"
  let ?g6 = "g6 \<lparr> commandBuffers := ?bs \<rparr>"
  have "length ?bs = swapchainImageCount g6"
    by (simp only: length_upt add_Suc diff_Suc_Suc diff_add_inverse)
  then have lb: "swapchainImageCount ?g6 \<le> length (commandBuffers ?g6)"
    by (simp del: length_upt)
  from len5 have lf: "swapchainImageCount ?g6 \<le> length (swapchainFramebuffers ?g6)"
    by (simp add: g6 g5)
  from a6 have "\<forall>n. \<not> rejects ?d6 n" by simp
  from CreateCommandBuffers_loop_succeeds [OF this lb lf, of 0]
  obtain d7 g7 where "CreateCommandBuffers_loop 0 ?d6 ?g6 = Inr (d7, g7)"
    by blast
  with a6 have s7: "CreateCommandBuffers d6 g6 = Inr (d7, g7)"
    by (simp add: CreateCommandBuffers_def vkAllocateCommandBuffers_eq)
  from CreateCommandBuffers_post(1) [OF s7] obtain bs f7 m7
    where d7: "d7 = d6 \<lparr> fresh := f7, recorded := m7 \<rparr>"
    by blast
  have "rejects d7 = rejects drv"
    by (simp add: d7 d6 d5 d4 d3 d2 a1)
  moreover from s1 s2 s3 s4 s5 s6 s7 assms(2,3)
  have "create_swapchain_resources details drv g = Inr (d7, g7)"
    by (simp add: create_swapchain_resources_def and_then_def)
  ultimately show ?thesis by blast
qed

text \<open>
  Initialisation reaches \<^verbatim>\<open>DrawFrame\<close> whenever device selection succeeds, one queue
  family of the chosen device presents to the surface, the surface offers a format and a
  present mode, and the implementation rejects no call.
\<close>

lemma main_init_succeeds:
  assumes "\<forall>n. \<not> rejects drv n"
    and "PickPhysicalVulkanDevice inst VK_NULL_HANDLE = Inr pd"
    and "\<exists>f \<in> set (queueFamilies inst pd). surfaceSupported f"
    and "formats (support pd) \<noteq> []" and "presentModes (support pd) \<noteq> []"
  shows "\<exists>drv' g'. main_init inst support drv = Inr (drv', g')"
proof -
  let ?g0 = "initial_globals \<lparr> physicalDevice := pd \<rparr>"
  from assms(3) have "\<exists>f \<in> set (queueFamilies inst (physicalDevice ?g0)). surfaceSupported f"
    by simp
  from CreateLogicalDevice_succeeds [OF assms(1) this]
  obtain d1 g1 where s1: "CreateLogicalDevice inst drv ?g0 = Inr (d1, g1)"
    and a1: "rejects d1 = rejects drv" and pd: "physicalDevice g1 = pd"
    by auto
  from assms(1) a1 have acc1: "\<forall>n. \<not> rejects d1 n" by simp
  from create_swapchain_resources_succeeds [OF acc1, of "support pd" g1] assms(4,5)
  obtain d2 g2 where s2: "create_swapchain_resources (support pd) d1 g1 = Inr (d2, g2)"
    and a2: "rejects d2 = rejects d1"
    by blast
  from acc1 a2 have "\<forall>n. \<not> rejects d2 n" by simp
  then obtain d3 g3 where s3: "CreateSemaphores d2 g2 = Inr (d3, g3)"
    by (simp add: CreateSemaphores_def vk_create_eq)
  from assms(2) s1 s2 s3 pd have "main_init inst support drv = Inr (d3, g3)"
    by (simp add: main_init_def and_then_def initial_globals_def)
  then show ?thesis by blast
qed

section \<open>The create-infos reach the implementation\<close>

lemma CreateLogicalDevice_passes_deviceCreateInfo:
  "CreateLogicalDevice inst drv g = Inr (drv', g') \<Longrightarrow>
     deviceInfos drv' (logicalDevice g') = Some (deviceCreateInfo (queueFamilyIndices g')) \<and>
     queueFamilyIndices g' = FindQueueFamilies (queueFamilies inst (physicalDevice g))"
  by (auto simp: CreateLogicalDevice_def Let_def vkCreateDevice_def vk_create_eq
      split: if_splits)

lemma CreateSwapChain_passes_swapchainCreateInfo:
  "CreateSwapChain details drv g = Inr (drv', g') \<Longrightarrow>
     \<exists>surfaceFormat. ChooseSwapSurfaceFormat details = Inr surfaceFormat \<and>
       swapchainInfos drv' (swapChain g') =
         Some (swapchainCreateInfo details (queueFamilyIndices g) surfaceFormat
                 (ChoosePresentMode details) (ChooseSwapExtent details))"
  by (auto simp: CreateSwapChain_def Let_def vkCreateSwapchainKHR_def vk_create_eq
      split: sum.splits if_splits)

end
